theory Spec2Isabelle
  imports Complex_Main "HOL-Library.Word"
begin

section \<open>Data model\<close>

text \<open>
  Go's \<open>int\<close> on the 64-bit targets the program is built for: a 64-bit two's complement
  value. \<open>+\<close> wraps around; comparisons read the value through \<open>sint\<close>.
\<close>

type_synonym go_int = "64 word"

text \<open>\<open>config.MonitorConfig\<close> (internal/config), field by field.\<close>

record MonitorConfig =
  ID :: string
  Name :: string
  ZoneID :: string
  Subdomains :: "string list"
  CheckType :: string
  CheckTarget :: string
  OriginalIP :: string
  BackupIP :: string
  FailureThreshold :: go_int
  SuccessThreshold :: go_int
  PingCount :: go_int
  Interval :: go_int
  TimeoutSeconds :: go_int
  OriginalIPCDNEnabled :: bool
  BackupIPCDNEnabled :: bool
  ScheduleEnabled :: bool
  ScheduleHours :: go_int
  ScheduleSwitchIP :: string

text \<open>\<open>monitor.Status\<close> and \<open>monitor.Monitor\<close> (the lock is not state).\<close>

datatype Status = StatusNormal | StatusDown

record Monitor =
  Config :: MonitorConfig
  Status :: Status
  CurrentIP :: string
  FailCount :: go_int
  SuccCount :: go_int
  BackupFailCount :: go_int
  BackupDown :: bool

text \<open>
  The three callbacks of the engine are function-valued fields that may be nil. A call
  \<open>go e.OnX(m, ...)\<close> is recorded as an event carrying the monitor's id and the
  arguments; the field of the engine says whether the callback is bound.
\<close>

datatype Event =
  SwitchCalled string bool
  | ScheduledSwitchCalled string string string
  | IPDownCalled string string string

record Engine =
  Monitors :: "string \<rightharpoonup> Monitor"
  OnSwitch :: bool
  OnScheduledSwitch :: bool
  OnIPDown :: bool
  cancels :: "string \<rightharpoonup> nat"

text \<open>\<open>if cb != nil { go cb(...) }\<close>: the call happens only for a bound callback.\<close>

definition dispatch :: "bool \<Rightarrow> Event \<Rightarrow> Event list" where
  "dispatch bound ev = (if bound then [ev] else [])"

text \<open>
  What the Go runtime holds for the engine: the contexts handed out so far (a cancel
  function is the handle of its context), the contexts whose cancel function has been
  called, and the goroutines started.
\<close>

datatype Goroutine = RunLoop nat string | ScheduleLoop nat string

record Runtime =
  nextCtx :: nat
  cancelled :: "nat list"
  goroutines :: "Goroutine list"

section \<open>The network, as the probes see it\<close>

text \<open>
  A float64 packet-loss percentage: a finite value, read as the rational it denotes,
  or NaN (every comparison with NaN is false).
\<close>

datatype float64 = Finite rat | NaN

fun float_less :: "float64 \<Rightarrow> rat \<Rightarrow> bool" where
  "float_less (Finite r) c = (r < c)"
| "float_less NaN c = False"

text \<open>
  One ping: \<open>probing.NewPinger\<close> fails, or \<open>pinger.Run\<close> fails, or the statistics
  carry a packet loss.
\<close>

datatype PingResult = NewPingerError | RunError | Statistics float64

text \<open>
  The answers of the network during one check: \<open>net.DialTimeout\<close> (true when err is
  nil), \<open>client.Get\<close> (the status code, or None for an error) and a ping with its
  target, count and timeout in seconds.
\<close>

record Net =
  dialTimeout :: "string \<Rightarrow> go_int \<Rightarrow> bool"
  httpGet :: "string \<Rightarrow> go_int \<Rightarrow> go_int option"
  pingRun :: "string \<Rightarrow> go_int \<Rightarrow> go_int \<Rightarrow> PingResult"

section \<open>The engine\<close>

definition NewEngine :: Engine where
  "NewEngine = \<lparr>Monitors = Map.empty, OnSwitch = False, OnScheduledSwitch = False,
     OnIPDown = False, cancels = Map.empty\<rparr>"

text \<open>
  The struct literal of \<open>StartMonitor\<close>: every field not named is Go's zero value.
  \<open>StartMonitor\<close> derives the monitor's context from the root context of the process;
  the context is named by the next free handle, and the shutdown of the root is left out.
\<close>

definition newMonitor :: "MonitorConfig \<Rightarrow> Monitor" where
  "newMonitor cfg = \<lparr>Config = cfg, Status = StatusNormal, CurrentIP = OriginalIP cfg,
     FailCount = 0, SuccCount = 0, BackupFailCount = 0, BackupDown = False\<rparr>"

definition StartMonitor :: "Runtime \<Rightarrow> Engine \<Rightarrow> MonitorConfig \<Rightarrow> Runtime \<times> Engine" where
  "StartMonitor rt e cfg =
    (let rt1 = (case cancels e (ID cfg) of
                  Some c \<Rightarrow> rt\<lparr>cancelled := c # cancelled rt\<rparr>
                | None \<Rightarrow> rt);
         mCtx = nextCtx rt1;
         rt2 = rt1\<lparr>nextCtx := Suc mCtx\<rparr>;
         e1 = e\<lparr>cancels := (cancels e)(ID cfg \<mapsto> mCtx)\<rparr>;
         m = newMonitor cfg;
         e2 = e1\<lparr>Monitors := (Monitors e1)(ID cfg \<mapsto> m)\<rparr>;
         rt3 = rt2\<lparr>goroutines := goroutines rt2 @ [RunLoop mCtx (ID cfg)]\<rparr>;
         rt4 = (if ScheduleEnabled cfg \<and> 0 < sint (ScheduleHours cfg)
                then rt3\<lparr>goroutines := goroutines rt3 @ [ScheduleLoop mCtx (ID cfg)]\<rparr>
                else rt3)
     in (rt4, e2))"

definition StopMonitor :: "Runtime \<Rightarrow> Engine \<Rightarrow> string \<Rightarrow> Runtime \<times> Engine" where
  "StopMonitor rt e i =
    (case cancels e i of
       Some c \<Rightarrow>
         (rt\<lparr>cancelled := c # cancelled rt\<rparr>,
          e\<lparr>cancels := (cancels e)(i := None), Monitors := (Monitors e)(i := None)\<rparr>)
     | None \<Rightarrow> (rt, e))"

text \<open>The section of \<open>ForceRestore\<close> that runs under the monitor's lock.\<close>

definition restoreLocked :: "Monitor \<Rightarrow> Monitor" where
  "restoreLocked m =
     m\<lparr>Status := StatusNormal, CurrentIP := OriginalIP (Config m),
       FailCount := 0, SuccCount := 0\<rparr>"

text \<open>\<open>ForceRestore\<close> returns (fromIP, ok); the engine is returned updated.\<close>

definition ForceRestore :: "Engine \<Rightarrow> string \<Rightarrow> Engine \<times> string \<times> bool" where
  "ForceRestore e i =
    (case Monitors e i of
       None \<Rightarrow> (e, '''', False)
     | Some m \<Rightarrow>
         (e\<lparr>Monitors := (Monitors e)(i \<mapsto> restoreLocked m)\<rparr>, CurrentIP m, True))"

definition scheduledSwitch :: "Engine \<Rightarrow> Monitor \<Rightarrow> Monitor \<times> Event list" where
  "scheduledSwitch e m =
    (if Status m = StatusDown then (m, [])
     else
       let fromIP = CurrentIP m;
           toIP = (if ScheduleSwitchIP (Config m) \<noteq> '''' then ScheduleSwitchIP (Config m)
                   else if fromIP = OriginalIP (Config m) then BackupIP (Config m)
                   else OriginalIP (Config m))
       in if toIP = '''' \<or> toIP = fromIP then (m, [])
          else (m\<lparr>CurrentIP := toIP, FailCount := 0, SuccCount := 0\<rparr>,
                dispatch (OnScheduledSwitch e)
                  (ScheduledSwitchCalled (ID (Config m)) fromIP toIP)))"

text \<open>
  The target of a scheduled switch in the words of the specification: the explicit
  switch-to IP if one is configured, otherwise the backup IP when the current IP is the
  primary, and the primary IP otherwise.
\<close>

definition spec_scheduleTarget :: "Monitor \<Rightarrow> string" where
  "spec_scheduleTarget m =
    (if ScheduleSwitchIP (Config m) \<noteq> '''' then ScheduleSwitchIP (Config m)
     else if CurrentIP m = OriginalIP (Config m) then BackupIP (Config m)
     else OriginalIP (Config m))"

section \<open>The probes\<close>

definition checkTCP :: "Net \<Rightarrow> Monitor \<Rightarrow> bool" where
  "checkTCP net m =
    (let target = CheckTarget (Config m) in
     if target = '''' then False
     else
       let timeoutSeconds = (if sint (TimeoutSeconds (Config m)) \<le> 0 then 2
                             else TimeoutSeconds (Config m))
       in dialTimeout net target timeoutSeconds)"

definition checkPing :: "Net \<Rightarrow> Monitor \<Rightarrow> bool" where
  "checkPing net m =
    (let target = (if CheckTarget (Config m) = '''' then OriginalIP (Config m)
                   else CheckTarget (Config m));
         count = (if sint (PingCount (Config m)) \<le> 0 then 5 else PingCount (Config m));
         timeoutSeconds = (if sint (TimeoutSeconds (Config m)) \<le> 0 then 2
                           else TimeoutSeconds (Config m))
     in case pingRun net target count timeoutSeconds of
          NewPingerError \<Rightarrow> False
        | RunError \<Rightarrow> False
        | Statistics loss \<Rightarrow> float_less loss 60)"

definition checkHTTP :: "Net \<Rightarrow> Monitor \<Rightarrow> bool" where
  "checkHTTP net m =
    (let target = CheckTarget (Config m) in
     if target = '''' then False
     else
       let timeoutSeconds = (if sint (TimeoutSeconds (Config m)) \<le> 0 then 10
                             else TimeoutSeconds (Config m))
       in case httpGet net target timeoutSeconds of
            None \<Rightarrow> False
          | Some code \<Rightarrow> 200 \<le> sint code \<and> sint code < 400)"

section \<open>The health state machine\<close>

definition handleFailure :: "Engine \<Rightarrow> Monitor \<Rightarrow> Monitor \<times> Event list" where
  "handleFailure e m =
    (if Status m = StatusNormal then
       let m1 = m\<lparr>FailCount := FailCount m + 1\<rparr> in
       if sint (FailureThreshold (Config m1)) \<le> sint (FailCount m1) then
         (m1\<lparr>Status := StatusDown, CurrentIP := BackupIP (Config m1), FailCount := 0\<rparr>,
          dispatch (OnIPDown e)
            (IPDownCalled (ID (Config m1)) (OriginalIP (Config m1)) ''original'')
          @ dispatch (OnSwitch e) (SwitchCalled (ID (Config m1)) True))
       else (m1, [])
     else (m\<lparr>SuccCount := 0\<rparr>, []))"

definition handleSuccess :: "Engine \<Rightarrow> Monitor \<Rightarrow> Monitor \<times> Event list" where
  "handleSuccess e m =
    (if Status m = StatusDown then
       let m1 = m\<lparr>SuccCount := SuccCount m + 1\<rparr> in
       if sint (SuccessThreshold (Config m1)) \<le> sint (SuccCount m1) then
         (m1\<lparr>Status := StatusNormal, CurrentIP := OriginalIP (Config m1), SuccCount := 0\<rparr>,
          dispatch (OnSwitch e) (SwitchCalled (ID (Config m1)) False))
       else (m1, [])
     else (m\<lparr>FailCount := 0\<rparr>, []))"

text \<open>The \<open>if success\<close> statement of \<open>check\<close>: one probe outcome enters the machine.\<close>

definition handleOutcome :: "Engine \<Rightarrow> bool \<Rightarrow> Monitor \<Rightarrow> Monitor \<times> Event list" where
  "handleOutcome e success m = (if success then handleSuccess e m else handleFailure e m)"

text \<open>A sequence of probe outcomes, one per check, with the events in the order fired.\<close>

fun feed :: "Engine \<Rightarrow> bool list \<Rightarrow> Monitor \<Rightarrow> Monitor \<times> Event list" where
  "feed e [] m = (m, [])"
| "feed e (b # bs) m =
     (let (m1, ev1) = handleOutcome e b m; (m2, ev2) = feed e bs m1 in (m2, ev1 @ ev2))"

text \<open>
  The state machine in the words of the specification, on the status, the current IP
  and one streak (the number of consecutive probes counted so far): while Normal a
  succeeding probe resets the streak and a failing one extends it, and the failing probe
  that makes the streak equal to the failure threshold fires the endpoint-down event
  for the primary, moves to Down at the backup IP with the streak reset and fires the
  failover event with toBackup = true; while Down a failing probe resets the streak and
  a succeeding one extends it, and the succeeding probe that makes the streak equal to
  the success threshold moves to Normal at the primary IP with the streak reset and fires
  the failover event with toBackup = false.
\<close>

definition spec_step ::
  "Engine \<Rightarrow> MonitorConfig \<Rightarrow> bool \<Rightarrow> Status \<times> string \<times> nat
     \<Rightarrow> (Status \<times> string \<times> nat) \<times> Event list" where
  "spec_step e cfg success s =
    (case s of (status, ip, streak) \<Rightarrow>
       if status = StatusNormal then
         (if success then ((StatusNormal, ip, 0), [])
          else if int (Suc streak) = sint (FailureThreshold cfg)
          then ((StatusDown, BackupIP cfg, 0),
                dispatch (OnIPDown e) (IPDownCalled (ID cfg) (OriginalIP cfg) ''original'')
                @ dispatch (OnSwitch e) (SwitchCalled (ID cfg) True))
          else ((StatusNormal, ip, Suc streak), []))
       else
         (if \<not> success then ((StatusDown, ip, 0), [])
          else if int (Suc streak) = sint (SuccessThreshold cfg)
          then ((StatusNormal, OriginalIP cfg, 0),
                dispatch (OnSwitch e) (SwitchCalled (ID cfg) False))
          else ((StatusDown, ip, Suc streak), [])))"

fun spec_feed ::
  "Engine \<Rightarrow> MonitorConfig \<Rightarrow> bool list \<Rightarrow> Status \<times> string \<times> nat
     \<Rightarrow> (Status \<times> string \<times> nat) \<times> Event list" where
  "spec_feed e cfg [] s = (s, [])"
| "spec_feed e cfg (b # bs) s =
     (let (s1, ev1) = spec_step e cfg b s; (s2, ev2) = spec_feed e cfg bs s1
      in (s2, ev1 @ ev2))"

text \<open>
  What that machine sees of a monitor: the counter of the current status is the streak.
\<close>

definition streakView :: "Monitor \<Rightarrow> Status \<times> string \<times> nat" where
  "streakView m = (Status m, CurrentIP m,
     nat (sint (if Status m = StatusNormal then FailCount m else SuccCount m)))"

text \<open>
  The counter of the current status is a count below its threshold, the other one is 0.
\<close>

definition streakInv :: "Monitor \<Rightarrow> bool" where
  "streakInv m =
    (if Status m = StatusNormal
     then 0 \<le> sint (FailCount m) \<and> sint (FailCount m) < sint (FailureThreshold (Config m))
          \<and> SuccCount m = 0
     else 0 \<le> sint (SuccCount m) \<and> sint (SuccCount m) < sint (SuccessThreshold (Config m))
          \<and> FailCount m = 0)"

section \<open>The backup watchdog\<close>

text \<open>
  The probes a check makes, in order: the probe function called on the primary with its
  result, and a run of the pinger against the backup IP with its verdict (true: it ran
  without error and lost less than 60 percent).
\<close>

datatype Prober = CheckPing | CheckTCP | CheckHTTP

datatype ProbeCall = PrimaryProbe Prober bool | BackupProbe bool

definition checkBackupHealth ::
  "Engine \<Rightarrow> Net \<Rightarrow> Monitor \<Rightarrow> Monitor \<times> Event list \<times> ProbeCall list" where
  "checkBackupHealth e net m =
    (let shouldCheck = (Status m = StatusDown \<and> CheckType (Config m) = ''ping''
                        \<and> BackupIP (Config m) \<noteq> '''');
         backupIP = BackupIP (Config m);
         wasDown = BackupDown m;
         failCount = BackupFailCount m
     in if \<not> shouldCheck then (m, [], [])
        else
          let pingCount = (if sint (PingCount (Config m)) \<le> 0 then 5
                           else PingCount (Config m));
              timeoutSeconds = (if sint (TimeoutSeconds (Config m)) \<le> 0 then 2
                                else TimeoutSeconds (Config m));
              failureThreshold = (if sint (FailureThreshold (Config m)) \<le> 0 then 3
                                  else FailureThreshold (Config m));
              r = pingRun net backupIP pingCount timeoutSeconds
          in if r = NewPingerError then (m, [], [])
             else if (case r of Statistics loss \<Rightarrow> float_less loss 60 | _ \<Rightarrow> False)
             then (m\<lparr>BackupFailCount := 0, BackupDown := False\<rparr>, [], [BackupProbe True])
             else
               let failCount1 = failCount + 1;
                   trigger = (sint failureThreshold \<le> sint failCount1 \<and> \<not> wasDown)
               in ((if trigger then m\<lparr>BackupDown := True, BackupFailCount := 0\<rparr>
                    else m\<lparr>BackupFailCount := failCount1\<rparr>),
                   (if trigger
                    then dispatch (OnIPDown e)
                           (IPDownCalled (ID (Config m)) backupIP ''backup'')
                    else []),
                   [BackupProbe False]))"

text \<open>
  The locals of \<open>checkBackupHealth\<close> by name: the guard \<open>shouldCheck\<close>, the ping it
  sends to the backup IP with the defaulted count and timeout, its defaulted failure
  threshold, and the verdict on the ping's result.
\<close>

definition shouldCheck :: "Monitor \<Rightarrow> bool" where
  "shouldCheck m = (Status m = StatusDown \<and> CheckType (Config m) = ''ping''
     \<and> BackupIP (Config m) \<noteq> '''')"

definition backupPing :: "Net \<Rightarrow> Monitor \<Rightarrow> PingResult" where
  "backupPing net m = pingRun net (BackupIP (Config m))
     (if sint (PingCount (Config m)) \<le> 0 then 5 else PingCount (Config m))
     (if sint (TimeoutSeconds (Config m)) \<le> 0 then 2 else TimeoutSeconds (Config m))"

definition backupThreshold :: "Monitor \<Rightarrow> go_int" where
  "backupThreshold m = (if sint (FailureThreshold (Config m)) \<le> 0 then 3
     else FailureThreshold (Config m))"

fun lossBelow60 :: "PingResult \<Rightarrow> bool" where
  "lossBelow60 (Statistics loss) = float_less loss 60"
| "lossBelow60 _ = False"

section \<open>One check\<close>

text \<open>The \<open>switch\<close> of \<open>check\<close>: which probe function the check type selects.\<close>

definition selectProber :: "Monitor \<Rightarrow> Prober" where
  "selectProber m =
    (if CheckType (Config m) = ''http'' \<or> CheckType (Config m) = ''https'' then CheckHTTP
     else if CheckType (Config m) = ''tcping'' then CheckTCP
     else CheckPing)"

fun runProber :: "Prober \<Rightarrow> Net \<Rightarrow> Monitor \<Rightarrow> bool" where
  "runProber CheckHTTP net m = checkHTTP net m"
| "runProber CheckTCP net m = checkTCP net m"
| "runProber CheckPing net m = checkPing net m"

definition check :: "Engine \<Rightarrow> Net \<Rightarrow> Monitor \<Rightarrow> Monitor \<times> Event list \<times> ProbeCall list" where
  "check e net m =
    (let p = selectProber m;
         success = runProber p net m;
         (m1, ev1) = handleOutcome e success m;
         (m2, ev2, calls) = checkBackupHealth e net m1
     in (m2, ev1 @ ev2, PrimaryProbe p success # calls))"

section \<open>The life of one monitor\<close>

text \<open>
  What happens to a registered monitor: a tick of its check loop (with the network of that
  moment), a fire of its schedule timer, a \<open>ForceRestore\<close> of its id.
\<close>

datatype MonOp = Tick Net | ScheduleFire | Restore

fun monStep :: "Engine \<Rightarrow> MonOp \<Rightarrow> Monitor \<Rightarrow> Monitor \<times> Event list \<times> ProbeCall list" where
  "monStep e (Tick net) m = check e net m"
| "monStep e ScheduleFire m = (let (m1, ev) = scheduledSwitch e m in (m1, ev, []))"
| "monStep e Restore m = (restoreLocked m, [], [])"

fun runOps :: "Engine \<Rightarrow> MonOp list \<Rightarrow> Monitor \<Rightarrow> Monitor \<times> Event list \<times> ProbeCall list" where
  "runOps e [] m = (m, [], [])"
| "runOps e (x # xs) m =
     (let (m1, ev1, c1) = monStep e x m; (m2, ev2, c2) = runOps e xs m1
      in (m2, ev1 @ ev2, c1 @ c2))"

text \<open>The endpoint-down events of the backup role.\<close>

fun isBackupDown :: "Event \<Rightarrow> bool" where
  "isBackupDown (IPDownCalled i ip role) = (role = ''backup'')"
| "isBackupDown _ = False"

section \<open>Concrete inputs\<close>

definition exampleConfig :: MonitorConfig where
  "exampleConfig = \<lparr>ID = ''m1'', Name = ''web'', ZoneID = ''z'', Subdomains = [''www''],
     CheckType = ''ping'', CheckTarget = '''', OriginalIP = ''192.0.2.1'',
     BackupIP = ''192.0.2.2'', FailureThreshold = 3, SuccessThreshold = 2, PingCount = 0,
     Interval = 0, TimeoutSeconds = 0, OriginalIPCDNEnabled = False,
     BackupIPCDNEnabled = False, ScheduleEnabled = True, ScheduleHours = 6,
     ScheduleSwitchIP = ''''\<rparr>"

definition boundEngine :: Engine where
  "boundEngine = NewEngine\<lparr>OnSwitch := True, OnScheduledSwitch := True, OnIPDown := True\<rparr>"

definition netDown :: Net where
  "netDown = \<lparr>dialTimeout = (\<lambda>t s. False), httpGet = (\<lambda>t s. None),
     pingRun = (\<lambda>t c s. RunError)\<rparr>"

definition netUp :: Net where
  "netUp = \<lparr>dialTimeout = (\<lambda>t s. True), httpGet = (\<lambda>t s. Some 200),
     pingRun = (\<lambda>t c s. Statistics (Finite 0))\<rparr>"

text \<open>Thresholds of one: a single failing probe fails over, a single succeeding one restores.\<close>

definition quickConfig :: MonitorConfig where
  "quickConfig = exampleConfig\<lparr>FailureThreshold := 1, SuccessThreshold := 1\<rparr>"

text \<open>A fresh monitor whose failure threshold was left unset (0).\<close>

definition zeroThresholdMonitor :: Monitor where
  "zeroThresholdMonitor = newMonitor (exampleConfig\<lparr>FailureThreshold := 0\<rparr>)"

text \<open>The example monitor after a failover.\<close>

definition failedOverMonitor :: Monitor where
  "failedOverMonitor = (newMonitor exampleConfig)\<lparr>Status := StatusDown, CurrentIP := ''192.0.2.2''\<rparr>"

text \<open>Failed over, with two failed backup probes counted (the threshold is 3).\<close>

definition nearAlertMonitor :: Monitor where
  "nearAlertMonitor = failedOverMonitor\<lparr>BackupFailCount := 2\<rparr>"

text \<open>The example monitor after a scheduled switch to the backup IP.\<close>

definition switchedMonitor :: Monitor where
  "switchedMonitor = (newMonitor exampleConfig)\<lparr>CurrentIP := ''192.0.2.2''\<rparr>"

text \<open>A fresh monitor whose primary IP is empty.\<close>

definition emptyPrimaryMonitor :: Monitor where
  "emptyPrimaryMonitor = newMonitor (exampleConfig\<lparr>OriginalIP := ''''\<rparr>)"

text \<open>A fresh monitor of the tcp check type.\<close>

definition tcpMonitor :: Monitor where
  "tcpMonitor = newMonitor (exampleConfig\<lparr>CheckType := ''tcping'', CheckTarget := ''192.0.2.1:443''\<rparr>)"

text \<open>The monitor after one check on a dead network: failed over, backup reported down.\<close>

definition backupAlertedMonitor :: Monitor where
  "backupAlertedMonitor = fst (check boundEngine netDown (newMonitor quickConfig))"

text \<open>An engine with all callbacks bound and one monitor registered, its context being 0.\<close>

definition registry :: "Monitor \<Rightarrow> Engine" where
  "registry m = boundEngine\<lparr>Monitors := [ID (Config m) \<mapsto> m], cancels := [ID (Config m) \<mapsto> 0]\<rparr>"

text \<open>The runtime after that monitor was started.\<close>

definition startedRuntime :: Runtime where
  "startedRuntime = \<lparr>nextCtx = 1, cancelled = [], goroutines = [RunLoop 0 ''m1'', ScheduleLoop 0 ''m1'']\<rparr>"

text \<open>A fresh monitor of the https check type.\<close>

definition httpsMonitor :: Monitor where
  "httpsMonitor = newMonitor (exampleConfig\<lparr>CheckType := ''https'',
     CheckTarget := ''https://192.0.2.1/health''\<rparr>)"

text \<open>A network where only tcp connects succeed, and one whose web server answers 500.\<close>

definition netTcpOnly :: Net where
  "netTcpOnly = netDown\<lparr>dialTimeout := (\<lambda>t s. True)\<rparr>"

definition netServerError :: Net where
  "netServerError = netUp\<lparr>httpGet := (\<lambda>t s. Some 500)\<rparr>"

section \<open>Arithmetic of the counters\<close>

text \<open>A counter below some threshold can be incremented without wrapping around.\<close>

lemma sint_inc: "sint (x :: go_int) < sint (t :: go_int) \<Longrightarrow> sint (x + 1) = sint x + 1"
proof -
  assume a: "sint x < sint t"
  have "sint t < 2 ^ 63" using sint_lt [of t] by simp
  moreover have "- (2 ^ 63) \<le> sint x" using sint_ge [of x] by simp
  ultimately have "signed_take_bit 63 (sint x + 1) = sint x + 1"
    using a by (intro signed_take_bit_int_eq_self) auto
  then show ?thesis by (simp add: sint_word_ariths)
qed

section \<open>The health state machine: streaks and thresholds\<close>

text \<open>One failing probe while Normal, below the threshold and on reaching it.\<close>

lemma handleFailure_below:
  assumes "Status m = StatusNormal"
    and "sint (FailCount m) + 1 < sint (FailureThreshold (Config m))"
  shows "handleFailure e m = (m\<lparr>FailCount := FailCount m + 1\<rparr>, [])"
proof -
  have "sint (FailCount m) < sint (FailureThreshold (Config m))" using assms(2) by simp
  then have "sint (FailCount m + 1) = sint (FailCount m) + 1" by (rule sint_inc)
  with assms show ?thesis by (simp add: handleFailure_def Let_def)
qed

lemma handleFailure_reach:
  assumes "Status m = StatusNormal"
    and "sint (FailCount m) + 1 = sint (FailureThreshold (Config m))"
  shows "handleFailure e m =
    (m\<lparr>Status := StatusDown, CurrentIP := BackupIP (Config m), FailCount := 0\<rparr>,
     dispatch (OnIPDown e) (IPDownCalled (ID (Config m)) (OriginalIP (Config m)) ''original'')
     @ dispatch (OnSwitch e) (SwitchCalled (ID (Config m)) True))"
proof -
  have "sint (FailCount m) < sint (FailureThreshold (Config m))" using assms(2) by simp
  then have "sint (FailCount m + 1) = sint (FailCount m) + 1" by (rule sint_inc)
  with assms show ?thesis by (simp add: handleFailure_def Let_def)
qed

text \<open>Feeding two sequences one after the other.\<close>

lemma feed_append:
  "feed e (as @ bs) m =
     (let (m1, ev1) = feed e as m; (m2, ev2) = feed e bs m1 in (m2, ev1 @ ev2))"
  by (induction as arbitrary: m) (simp_all add: Let_def split: prod.splits)

text \<open>
  A run of failing probes while Normal: as long as the count stays below the threshold
  nothing but the count changes; the probe that brings it to the threshold fails over.
\<close>

lemma feed_failures_below:
  assumes "Status m = StatusNormal"
    and "sint (FailCount m) + int k < sint (FailureThreshold (Config m))"
  shows "feed e (replicate k False) m = (m\<lparr>FailCount := FailCount m + of_nat k\<rparr>, [])"
  using assms
proof (induction k arbitrary: m)
  case 0
  then show ?case by simp
next
  case (Suc k)
  let ?m1 = "m\<lparr>FailCount := FailCount m + 1\<rparr>"
  have lt: "sint (FailCount m) < sint (FailureThreshold (Config m))" using Suc.prems(2) by simp
  have inc: "sint (FailCount m + 1) = sint (FailCount m) + 1" using lt by (rule sint_inc)
  have step: "handleFailure e m = (?m1, [])"
    using Suc.prems by (intro handleFailure_below) auto
  have "feed e (replicate k False) ?m1 = (?m1\<lparr>FailCount := FailCount ?m1 + of_nat k\<rparr>, [])"
    using Suc.prems inc by (intro Suc.IH) auto
  then show ?case using step by (simp add: handleOutcome_def add.assoc)
qed

lemma feed_failures_reach:
  assumes "Status m = StatusNormal"
    and "sint (FailCount m) + int (Suc k) = sint (FailureThreshold (Config m))"
  shows "feed e (replicate (Suc k) False) m =
    (m\<lparr>Status := StatusDown, CurrentIP := BackupIP (Config m), FailCount := 0\<rparr>,
     dispatch (OnIPDown e) (IPDownCalled (ID (Config m)) (OriginalIP (Config m)) ''original'')
     @ dispatch (OnSwitch e) (SwitchCalled (ID (Config m)) True))"
  using assms
proof (induction k arbitrary: m)
  case 0
  then have "sint (FailCount m) + 1 = sint (FailureThreshold (Config m))" by simp
  with 0 show ?case by (simp add: handleOutcome_def handleFailure_reach)
next
  case (Suc k)
  let ?m1 = "m\<lparr>FailCount := FailCount m + 1\<rparr>"
  have lt: "sint (FailCount m) < sint (FailureThreshold (Config m))" using Suc.prems(2) by simp
  have inc: "sint (FailCount m + 1) = sint (FailCount m) + 1" using lt by (rule sint_inc)
  have step: "handleFailure e m = (?m1, [])"
    using Suc.prems by (intro handleFailure_below) auto
  have "feed e (replicate (Suc k) False) ?m1 =
    (?m1\<lparr>Status := StatusDown, CurrentIP := BackupIP (Config ?m1), FailCount := 0\<rparr>,
     dispatch (OnIPDown e) (IPDownCalled (ID (Config ?m1)) (OriginalIP (Config ?m1)) ''original'')
     @ dispatch (OnSwitch e) (SwitchCalled (ID (Config ?m1)) True))"
    using Suc.prems inc by (intro Suc.IH) auto
  then show ?case using step by (simp add: handleOutcome_def)
qed

text \<open>The same for succeeding probes while Down.\<close>

lemma handleSuccess_below:
  assumes "Status m = StatusDown"
    and "sint (SuccCount m) + 1 < sint (SuccessThreshold (Config m))"
  shows "handleSuccess e m = (m\<lparr>SuccCount := SuccCount m + 1\<rparr>, [])"
proof -
  have "sint (SuccCount m) < sint (SuccessThreshold (Config m))" using assms(2) by simp
  then have "sint (SuccCount m + 1) = sint (SuccCount m) + 1" by (rule sint_inc)
  with assms show ?thesis by (simp add: handleSuccess_def Let_def)
qed

lemma handleSuccess_reach:
  assumes "Status m = StatusDown"
    and "sint (SuccCount m) + 1 = sint (SuccessThreshold (Config m))"
  shows "handleSuccess e m =
    (m\<lparr>Status := StatusNormal, CurrentIP := OriginalIP (Config m), SuccCount := 0\<rparr>,
     dispatch (OnSwitch e) (SwitchCalled (ID (Config m)) False))"
proof -
  have "sint (SuccCount m) < sint (SuccessThreshold (Config m))" using assms(2) by simp
  then have "sint (SuccCount m + 1) = sint (SuccCount m) + 1" by (rule sint_inc)
  with assms show ?thesis by (simp add: handleSuccess_def Let_def)
qed

lemma feed_successes_below:
  assumes "Status m = StatusDown"
    and "sint (SuccCount m) + int k < sint (SuccessThreshold (Config m))"
  shows "feed e (replicate k True) m = (m\<lparr>SuccCount := SuccCount m + of_nat k\<rparr>, [])"
  using assms
proof (induction k arbitrary: m)
  case 0
  then show ?case by simp
next
  case (Suc k)
  let ?m1 = "m\<lparr>SuccCount := SuccCount m + 1\<rparr>"
  have lt: "sint (SuccCount m) < sint (SuccessThreshold (Config m))" using Suc.prems(2) by simp
  have inc: "sint (SuccCount m + 1) = sint (SuccCount m) + 1" using lt by (rule sint_inc)
  have step: "handleSuccess e m = (?m1, [])"
    using Suc.prems by (intro handleSuccess_below) auto
  have "feed e (replicate k True) ?m1 = (?m1\<lparr>SuccCount := SuccCount ?m1 + of_nat k\<rparr>, [])"
    using Suc.prems inc by (intro Suc.IH) auto
  then show ?case using step by (simp add: handleOutcome_def add.assoc)
qed

lemma feed_successes_reach:
  assumes "Status m = StatusDown"
    and "sint (SuccCount m) + int (Suc k) = sint (SuccessThreshold (Config m))"
  shows "feed e (replicate (Suc k) True) m =
    (m\<lparr>Status := StatusNormal, CurrentIP := OriginalIP (Config m), SuccCount := 0\<rparr>,
     dispatch (OnSwitch e) (SwitchCalled (ID (Config m)) False))"
  using assms
proof (induction k arbitrary: m)
  case 0
  then have "sint (SuccCount m) + 1 = sint (SuccessThreshold (Config m))" by simp
  with 0 show ?case by (simp add: handleOutcome_def handleSuccess_reach)
next
  case (Suc k)
  let ?m1 = "m\<lparr>SuccCount := SuccCount m + 1\<rparr>"
  have lt: "sint (SuccCount m) < sint (SuccessThreshold (Config m))" using Suc.prems(2) by simp
  have inc: "sint (SuccCount m + 1) = sint (SuccCount m) + 1" using lt by (rule sint_inc)
  have step: "handleSuccess e m = (?m1, [])"
    using Suc.prems by (intro handleSuccess_below) auto
  have "feed e (replicate (Suc k) True) ?m1 =
    (?m1\<lparr>Status := StatusNormal, CurrentIP := OriginalIP (Config ?m1), SuccCount := 0\<rparr>,
     dispatch (OnSwitch e) (SwitchCalled (ID (Config ?m1)) False))"
    using Suc.prems inc by (intro Suc.IH) auto
  then show ?case using step by (simp add: handleOutcome_def)
qed

text \<open>The probe of the other kind resets the streak.\<close>

lemma success_while_normal:
  "Status m = StatusNormal \<Longrightarrow> handleOutcome e True m = (m\<lparr>FailCount := 0\<rparr>, [])"
  by (simp add: handleOutcome_def handleSuccess_def)

lemma failure_while_down:
  "Status m = StatusDown \<Longrightarrow> handleOutcome e False m = (m\<lparr>SuccCount := 0\<rparr>, [])"
  by (simp add: handleOutcome_def handleFailure_def)

text \<open>The code follows the machine of the specification step by step.\<close>

lemma handleOutcome_refines:
  assumes "streakInv m"
    and "1 \<le> sint (FailureThreshold (Config m))" and "1 \<le> sint (SuccessThreshold (Config m))"
  shows "streakView (fst (handleOutcome e b m)) = fst (spec_step e (Config m) b (streakView m))
     \<and> snd (handleOutcome e b m) = snd (spec_step e (Config m) b (streakView m))
     \<and> streakInv (fst (handleOutcome e b m))
     \<and> Config (fst (handleOutcome e b m)) = Config m"
proof (cases "Status m")
  case StatusNormal
  with assms(1) have inv: "0 \<le> sint (FailCount m)"
      "sint (FailCount m) < sint (FailureThreshold (Config m))" "SuccCount m = 0"
    by (simp_all add: streakInv_def)
  have inc: "sint (FailCount m + 1) = sint (FailCount m) + 1" using inv(2) by (rule sint_inc)
  show ?thesis
  proof (cases b)
    case True
    then show ?thesis using StatusNormal inv assms(2,3)
      by (simp add: handleOutcome_def handleSuccess_def spec_step_def streakView_def
          streakInv_def)
  next
    case False
    then show ?thesis using StatusNormal inv inc assms(2,3)
      by (auto simp add: handleOutcome_def handleFailure_def spec_step_def streakView_def
          streakInv_def Let_def nat_add_distrib)
  qed
next
  case StatusDown
  with assms(1) have inv: "0 \<le> sint (SuccCount m)"
      "sint (SuccCount m) < sint (SuccessThreshold (Config m))" "FailCount m = 0"
    by (simp_all add: streakInv_def)
  have inc: "sint (SuccCount m + 1) = sint (SuccCount m) + 1" using inv(2) by (rule sint_inc)
  show ?thesis
  proof (cases b)
    case False
    then show ?thesis using StatusDown inv assms(2,3)
      by (simp add: handleOutcome_def handleFailure_def spec_step_def streakView_def
          streakInv_def)
  next
    case True
    then show ?thesis using StatusDown inv inc assms(2,3)
      by (auto simp add: handleOutcome_def handleSuccess_def spec_step_def streakView_def
          streakInv_def Let_def nat_add_distrib)
  qed
qed

lemma feed_refines:
  assumes "streakInv m"
    and "1 \<le> sint (FailureThreshold (Config m))" and "1 \<le> sint (SuccessThreshold (Config m))"
  shows "(streakView (fst (feed e bs m)), snd (feed e bs m))
       = spec_feed e (Config m) bs (streakView m)"
  using assms
proof (induction bs arbitrary: m)
  case Nil
  then show ?case by simp
next
  case (Cons b bs)
  let ?m1 = "fst (handleOutcome e b m)"
  note step = handleOutcome_refines [OF Cons.prems, of e b]
  have c: "Config ?m1 = Config m" using step by simp
  have ih: "(streakView (fst (feed e bs ?m1)), snd (feed e bs ?m1))
       = spec_feed e (Config m) bs (streakView ?m1)"
    using Cons.IH [of ?m1] step Cons.prems(2,3) c by simp
  have sp: "spec_step e (Config m) b (streakView m)
      = (streakView ?m1, snd (handleOutcome e b m))"
    using step by (simp add: prod_eq_iff)
  show ?case
    using ih [symmetric] sp by (simp add: Let_def split: prod.splits)
qed

lemma feed_Cons_unfold:
  "feed e (b # bs) m =
    (fst (feed e bs (fst (handleOutcome e b m))),
     snd (handleOutcome e b m) @ snd (feed e bs (fst (handleOutcome e b m))))"
  by (simp add: Let_def split: prod.splits)

lemma feed_streakInv:
  assumes "streakInv m"
    and "1 \<le> sint (FailureThreshold (Config m))" and "1 \<le> sint (SuccessThreshold (Config m))"
  shows "streakInv (fst (feed e bs m)) \<and> Config (fst (feed e bs m)) = Config m"
  using assms
proof (induction bs arbitrary: m)
  case Nil
  then show ?case by simp
next
  case (Cons b bs)
  let ?m1 = "fst (handleOutcome e b m)"
  note step = handleOutcome_refines [OF Cons.prems, of e b]
  have "streakInv (fst (feed e bs ?m1)) \<and> Config (fst (feed e bs ?m1)) = Config ?m1"
    using Cons.IH [of ?m1] step Cons.prems(2,3) by simp
  then show ?case using step unfolding feed_Cons_unfold by simp
qed

text \<open>
  Claim C1, for thresholds of at least 1. Let \<open>m\<close> be a monitor whose failCount and
  succCount are 0, with a failure threshold \<open>nf \<ge> 1\<close> and a success threshold
  \<open>ns \<ge> 1\<close>. For every sequence of probe outcomes fed to \<open>m\<close>, the status, the current
  IP, the streak and the events fired are those of the machine of the specification:
  Normal to Down exactly when the streak of failing probes reaches \<open>nf\<close>, Down to Normal
  exactly when the streak of succeeding probes reaches \<open>ns\<close>, with the events and the
  current IP of each transition. In particular, when \<open>m\<close> is Normal, fewer than \<open>nf\<close>
  consecutive failing probes leave it Normal, only counting them in failCount and firing
  nothing, a succeeding probe after them puts the streak back to zero (the monitor is
  \<open>m\<close> again), and exactly \<open>nf\<close> consecutive failing probes move it to Down: the
  endpoint-down callback is called for the primary IP with role original, currentIP is
  the backup IP, failCount is 0 and the failover callback is called with toBackup = true.
  Symmetrically, when \<open>m\<close> is Down, fewer than \<open>ns\<close> consecutive succeeding probes leave
  it Down, a failing probe after them resets the streak, and exactly \<open>ns\<close> of them move it
  to Normal: currentIP is the primary IP, succCount is 0 and the failover callback is
  called with toBackup = false. A callback is called when it is bound.
\<close>

theorem hysteresis_thresholds:
  assumes "FailCount m = 0" and "SuccCount m = 0"
    and "sint (FailureThreshold (Config m)) = int nf" and "1 \<le> nf"
    and "sint (SuccessThreshold (Config m)) = int ns" and "1 \<le> ns"
  shows
    "(\<forall>bs. (streakView (fst (feed e bs m)), snd (feed e bs m))
            = spec_feed e (Config m) bs (streakView m)
          \<and> Config (fst (feed e bs m)) = Config m)
     \<and> (Status m = StatusNormal \<longrightarrow>
          (\<forall>k < nf. feed e (replicate k False) m = (m\<lparr>FailCount := of_nat k\<rparr>, [])
             \<and> feed e (replicate k False @ [True]) m = (m, []))
          \<and> feed e (replicate nf False) m =
              (m\<lparr>Status := StatusDown, CurrentIP := BackupIP (Config m)\<rparr>,
               dispatch (OnIPDown e)
                 (IPDownCalled (ID (Config m)) (OriginalIP (Config m)) ''original'')
               @ dispatch (OnSwitch e) (SwitchCalled (ID (Config m)) True)))
     \<and> (Status m = StatusDown \<longrightarrow>
          (\<forall>k < ns. feed e (replicate k True) m = (m\<lparr>SuccCount := of_nat k\<rparr>, [])
             \<and> feed e (replicate k True @ [False]) m = (m, []))
          \<and> feed e (replicate ns True) m =
              (m\<lparr>Status := StatusNormal, CurrentIP := OriginalIP (Config m)\<rparr>,
               dispatch (OnSwitch e) (SwitchCalled (ID (Config m)) False)))"
proof -
  have inv: "streakInv m" using assms by (simp add: streakInv_def)
  have thr: "1 \<le> sint (FailureThreshold (Config m))" "1 \<le> sint (SuccessThreshold (Config m))"
    using assms(3-6) by simp_all
  have all: "\<forall>bs. (streakView (fst (feed e bs m)), snd (feed e bs m))
            = spec_feed e (Config m) bs (streakView m)
          \<and> Config (fst (feed e bs m)) = Config m"
    using feed_refines [OF inv thr] feed_streakInv [OF inv thr] by blast
  have f0: "m\<lparr>FailCount := 0\<rparr> = m" and s0: "m\<lparr>SuccCount := 0\<rparr> = m"
    using assms(1,2) by simp_all
  have normal: "(\<forall>k < nf. feed e (replicate k False) m = (m\<lparr>FailCount := of_nat k\<rparr>, [])
             \<and> feed e (replicate k False @ [True]) m = (m, []))
          \<and> feed e (replicate nf False) m =
              (m\<lparr>Status := StatusDown, CurrentIP := BackupIP (Config m)\<rparr>,
               dispatch (OnIPDown e)
                 (IPDownCalled (ID (Config m)) (OriginalIP (Config m)) ''original'')
               @ dispatch (OnSwitch e) (SwitchCalled (ID (Config m)) True))"
    if st: "Status m = StatusNormal"
  proof -
    have below: "feed e (replicate k False) m = (m\<lparr>FailCount := of_nat k\<rparr>, [])"
      if "k < nf" for k
      using feed_failures_below [of m k e] st assms(1,3) that by simp
    have reset: "feed e (replicate k False @ [True]) m = (m, [])" if "k < nf" for k
    proof -
      have "handleOutcome e True (m\<lparr>FailCount := of_nat k\<rparr>) = (m\<lparr>FailCount := 0\<rparr>, [])"
        using st by (simp add: success_while_normal)
      then show ?thesis using below [OF that] f0 by (simp add: feed_append)
    qed
    obtain j where n: "nf = Suc j" using assms(4) by (cases nf) auto
    have "feed e (replicate nf False) m =
        (m\<lparr>Status := StatusDown, CurrentIP := BackupIP (Config m), FailCount := 0\<rparr>,
         dispatch (OnIPDown e)
           (IPDownCalled (ID (Config m)) (OriginalIP (Config m)) ''original'')
         @ dispatch (OnSwitch e) (SwitchCalled (ID (Config m)) True))"
      unfolding n using st assms(1,3) n by (intro feed_failures_reach) auto
    moreover have "m\<lparr>Status := StatusDown, CurrentIP := BackupIP (Config m), FailCount := 0\<rparr>
        = m\<lparr>Status := StatusDown, CurrentIP := BackupIP (Config m)\<rparr>"
      using assms(1) by simp
    ultimately show ?thesis using below reset by simp
  qed
  have down: "(\<forall>k < ns. feed e (replicate k True) m = (m\<lparr>SuccCount := of_nat k\<rparr>, [])
             \<and> feed e (replicate k True @ [False]) m = (m, []))
          \<and> feed e (replicate ns True) m =
              (m\<lparr>Status := StatusNormal, CurrentIP := OriginalIP (Config m)\<rparr>,
               dispatch (OnSwitch e) (SwitchCalled (ID (Config m)) False))"
    if st: "Status m = StatusDown"
  proof -
    have below: "feed e (replicate k True) m = (m\<lparr>SuccCount := of_nat k\<rparr>, [])"
      if "k < ns" for k
      using feed_successes_below [of m k e] st assms(2,5) that by simp
    have reset: "feed e (replicate k True @ [False]) m = (m, [])" if "k < ns" for k
    proof -
      have "handleOutcome e False (m\<lparr>SuccCount := of_nat k\<rparr>) = (m\<lparr>SuccCount := 0\<rparr>, [])"
        using st by (simp add: failure_while_down)
      then show ?thesis using below [OF that] s0 by (simp add: feed_append)
    qed
    obtain j where n: "ns = Suc j" using assms(6) by (cases ns) auto
    have "feed e (replicate ns True) m =
        (m\<lparr>Status := StatusNormal, CurrentIP := OriginalIP (Config m), SuccCount := 0\<rparr>,
         dispatch (OnSwitch e) (SwitchCalled (ID (Config m)) False))"
      unfolding n using st assms(2,5) n by (intro feed_successes_reach) auto
    moreover have "m\<lparr>Status := StatusNormal, CurrentIP := OriginalIP (Config m), SuccCount := 0\<rparr>
        = m\<lparr>Status := StatusNormal, CurrentIP := OriginalIP (Config m)\<rparr>"
      using assms(2) by simp
    ultimately show ?thesis using below reset by simp
  qed
  show ?thesis using all normal down by blast
qed

text \<open>
  The scenario of the specification: failure threshold 3, success threshold 2. A sequence
  with a broken fail streak, a failover, a broken success streak and a restore fires one
  endpoint-down event and the two failover events and ends Normal at the primary IP. Two
  failures only count; a success after them resets; three failures fail over; then a
  success followed by a failure resets, and two successes restore.
\<close>

theorem hysteresis_thresholds_witness:
  "streakView (fst (feed boundEngine
       [False, False, True, False, False, False, True, False, True, True]
       (newMonitor exampleConfig))) = (StatusNormal, ''192.0.2.1'', 0)
   \<and> snd (feed boundEngine
       [False, False, True, False, False, False, True, False, True, True]
       (newMonitor exampleConfig))
     = [IPDownCalled ''m1'' ''192.0.2.1'' ''original'', SwitchCalled ''m1'' True,
        SwitchCalled ''m1'' False]
   \<and> feed boundEngine [False, False] (newMonitor exampleConfig)
     = ((newMonitor exampleConfig)\<lparr>FailCount := 2\<rparr>, [])
   \<and> feed boundEngine [False, False, True] (newMonitor exampleConfig)
     = (newMonitor exampleConfig, [])
   \<and> feed boundEngine [False, False, False] (newMonitor exampleConfig)
     = (failedOverMonitor,
        [IPDownCalled ''m1'' ''192.0.2.1'' ''original'', SwitchCalled ''m1'' True])
   \<and> feed boundEngine [True] failedOverMonitor = (failedOverMonitor\<lparr>SuccCount := 1\<rparr>, [])
   \<and> feed boundEngine [True, False] failedOverMonitor = (failedOverMonitor, [])
   \<and> feed boundEngine [True, True] failedOverMonitor
     = (newMonitor exampleConfig, [SwitchCalled ''m1'' False])"
proof -
  have hn: "FailCount (newMonitor exampleConfig) = 0" "SuccCount (newMonitor exampleConfig) = 0"
      "sint (FailureThreshold (Config (newMonitor exampleConfig))) = int 3" "1 \<le> (3::nat)"
      "sint (SuccessThreshold (Config (newMonitor exampleConfig))) = int 2" "1 \<le> (2::nat)"
    and hd: "FailCount failedOverMonitor = 0" "SuccCount failedOverMonitor = 0"
      "sint (FailureThreshold (Config failedOverMonitor)) = int 3" "1 \<le> (3::nat)"
      "sint (SuccessThreshold (Config failedOverMonitor)) = int 2" "1 \<le> (2::nat)"
    and st: "Status (newMonitor exampleConfig) = StatusNormal"
      "Status failedOverMonitor = StatusDown"
    by (simp_all add: newMonitor_def exampleConfig_def failedOverMonitor_def)
  note tn = hysteresis_thresholds [OF hn, of boundEngine]
  note td = hysteresis_thresholds [OF hd, of boundEngine]
  have r: "replicate 3 False = [False, False, False]" "replicate 2 False = [False, False]"
    "replicate 2 True = [True, True]" "replicate 1 True = [True]"
    by (simp_all add: numeral_3_eq_3 numeral_2_eq_2)
  have lt: "(2::nat) < 3" "(1::nat) < 2" by simp_all
  note n = tn [THEN conjunct2, THEN conjunct1, rule_format, OF st(1)]
  note d = td [THEN conjunct2, THEN conjunct2, rule_format, OF st(2)]
  note a = n [THEN conjunct1, rule_format, OF lt(1), THEN conjunct1]
  note b = n [THEN conjunct1, rule_format, OF lt(1), THEN conjunct2]
  note f = n [THEN conjunct2]
  note c = d [THEN conjunct1, rule_format, OF lt(2), THEN conjunct1]
  note g = d [THEN conjunct1, rule_format, OF lt(2), THEN conjunct2]
  note h = d [THEN conjunct2]
  note facts = a b f c g h
  have run: "(streakView (fst (feed boundEngine
         [False, False, True, False, False, False, True, False, True, True]
         (newMonitor exampleConfig))),
       snd (feed boundEngine
         [False, False, True, False, False, False, True, False, True, True]
         (newMonitor exampleConfig)))
      = ((StatusNormal, ''192.0.2.1'', 0),
         [IPDownCalled ''m1'' ''192.0.2.1'' ''original'', SwitchCalled ''m1'' True,
          SwitchCalled ''m1'' False])"
    unfolding tn [THEN conjunct1, rule_format, THEN conjunct1]
    by (simp add: spec_step_def streakView_def newMonitor_def exampleConfig_def
        boundEngine_def NewEngine_def dispatch_def)
  show ?thesis
    using run facts [unfolded r append.simps]
    by (simp add: newMonitor_def exampleConfig_def failedOverMonitor_def boundEngine_def
        NewEngine_def dispatch_def del: feed.simps)
qed

text \<open>
  With a failure threshold of 0 (the value of a configuration that leaves it unset) the
  monitor goes from Normal to Down on the first failing probe: the streak that causes
  the transition has length 1, not the threshold.
\<close>

theorem hysteresis_zero_threshold_counterexample:
  "Status zeroThresholdMonitor = StatusNormal
   \<and> FailCount zeroThresholdMonitor = 0
   \<and> sint (FailureThreshold (Config zeroThresholdMonitor)) = 0
   \<and> Status (fst (feed boundEngine [False] zeroThresholdMonitor)) = StatusDown
   \<and> int (length [False]) \<noteq> sint (FailureThreshold (Config zeroThresholdMonitor))"
  by (simp add: zeroThresholdMonitor_def newMonitor_def exampleConfig_def handleOutcome_def
      handleFailure_def Let_def)

section \<open>Leaving Down and the backup counters\<close>

text \<open>The state after one check on a dead network, thresholds being 1.\<close>

lemma backupAlertedMonitor_eq:
  "backupAlertedMonitor = (newMonitor quickConfig)\<lparr>Status := StatusDown,
     CurrentIP := ''192.0.2.2'', BackupDown := True\<rparr>"
  by (simp add: backupAlertedMonitor_def check_def selectProber_def checkPing_def
      handleOutcome_def handleFailure_def checkBackupHealth_def Let_def newMonitor_def
      quickConfig_def exampleConfig_def netDown_def boundEngine_def NewEngine_def dispatch_def)

text \<open>
  Claim C2, as the code has it. The success handler (which performs the restore
  transition from Down to Normal) and \<open>ForceRestore\<close> leave backupFailCount and
  backupDown exactly as they were before the operation: neither of them resets the two
  fields.
\<close>

theorem leaving_down_keeps_backup_state:
  "BackupFailCount (fst (handleSuccess e m)) = BackupFailCount m
   \<and> BackupDown (fst (handleSuccess e m)) = BackupDown m
   \<and> (Monitors e i = Some m \<longrightarrow>
        (\<exists>m'. Monitors (fst (ForceRestore e i)) i = Some m'
           \<and> BackupFailCount m' = BackupFailCount m \<and> BackupDown m' = BackupDown m))"
  by (simp add: handleSuccess_def Let_def ForceRestore_def restoreLocked_def)

text \<open>A monitor whose backup was reported down keeps the flag through both operations.\<close>

theorem leaving_down_keeps_backup_state_witness:
  "Monitors (registry backupAlertedMonitor) ''m1'' = Some backupAlertedMonitor
   \<and> BackupDown (fst (handleSuccess (registry backupAlertedMonitor) backupAlertedMonitor))
   \<and> (\<exists>m'. Monitors (fst (ForceRestore (registry backupAlertedMonitor) ''m1'')) ''m1'' = Some m'
         \<and> BackupDown m')"
proof -
  have h: "Monitors (registry backupAlertedMonitor) ''m1'' = Some backupAlertedMonitor"
    by (simp add: registry_def backupAlertedMonitor_eq newMonitor_def quickConfig_def
        exampleConfig_def)
  have b: "BackupDown backupAlertedMonitor" by (simp add: backupAlertedMonitor_eq)
  note t = leaving_down_keeps_backup_state [of "registry backupAlertedMonitor"
      backupAlertedMonitor "''m1''"]
  from t have "BackupDown (fst (handleSuccess (registry backupAlertedMonitor) backupAlertedMonitor))"
    using b by simp
  moreover from t h b
  have "\<exists>m'. Monitors (fst (ForceRestore (registry backupAlertedMonitor) ''m1'')) ''m1'' = Some m'
         \<and> BackupDown m'"
    by (metis (no_types, lifting))
  ultimately show ?thesis using h by blast
qed

text \<open>
  The monitor is Down with backupDown set, one success away from the restore. After the
  restore transition the status is Normal and backupDown is still true; the same after
  \<open>ForceRestore\<close>.
\<close>

theorem leaving_down_counterexample:
  "Status backupAlertedMonitor = StatusDown
   \<and> sint (SuccCount backupAlertedMonitor) + 1
       = sint (SuccessThreshold (Config backupAlertedMonitor))
   \<and> Status (fst (handleSuccess boundEngine backupAlertedMonitor)) = StatusNormal
   \<and> BackupDown (fst (handleSuccess boundEngine backupAlertedMonitor))
   \<and> Monitors (registry backupAlertedMonitor) ''m1'' = Some backupAlertedMonitor
   \<and> map_option Status (Monitors (fst (ForceRestore (registry backupAlertedMonitor) ''m1'')) ''m1'')
       = Some StatusNormal
   \<and> map_option BackupDown
        (Monitors (fst (ForceRestore (registry backupAlertedMonitor) ''m1'')) ''m1'')
       = Some True"
  by (simp add: backupAlertedMonitor_eq handleSuccess_def Let_def ForceRestore_def
      restoreLocked_def registry_def newMonitor_def quickConfig_def exampleConfig_def)

section \<open>The scheduled switch\<close>

text \<open>
  Claim C3. A fire of the schedule timer changes nothing and fires nothing when the
  status is Down, and when the target (the configured switch-to IP if non-empty,
  otherwise the backup IP when currentIP is the primary IP and the primary IP otherwise)
  is empty or equal to currentIP. In every other case it sets currentIP to the target,
  resets failCount and succCount to 0, leaves the status as it is and calls the
  scheduled-switch callback (when bound) with the old and the new IP.
\<close>

theorem scheduledSwitch_fire:
  "(Status m = StatusDown \<or> spec_scheduleTarget m = '''' \<or> spec_scheduleTarget m = CurrentIP m
      \<longrightarrow> scheduledSwitch e m = (m, []))
   \<and> (Status m \<noteq> StatusDown \<and> spec_scheduleTarget m \<noteq> ''''
        \<and> spec_scheduleTarget m \<noteq> CurrentIP m
      \<longrightarrow> scheduledSwitch e m =
            (m\<lparr>CurrentIP := spec_scheduleTarget m, FailCount := 0, SuccCount := 0\<rparr>,
             dispatch (OnScheduledSwitch e)
               (ScheduledSwitchCalled (ID (Config m)) (CurrentIP m) (spec_scheduleTarget m)))
          \<and> Status (fst (scheduledSwitch e m)) = Status m)"
  by (simp add: scheduledSwitch_def spec_scheduleTarget_def Let_def)

text \<open>
  A failed-over monitor is left alone; a Normal one with two failures counted is switched
  to the backup IP, its counters reset.
\<close>

theorem scheduledSwitch_fire_witness:
  "Status failedOverMonitor = StatusDown
   \<and> scheduledSwitch boundEngine failedOverMonitor = (failedOverMonitor, [])
   \<and> Status ((newMonitor exampleConfig)\<lparr>FailCount := 2\<rparr>) \<noteq> StatusDown
   \<and> spec_scheduleTarget ((newMonitor exampleConfig)\<lparr>FailCount := 2\<rparr>) = ''192.0.2.2''
   \<and> scheduledSwitch boundEngine ((newMonitor exampleConfig)\<lparr>FailCount := 2\<rparr>)
       = (switchedMonitor, [ScheduledSwitchCalled ''m1'' ''192.0.2.1'' ''192.0.2.2''])"
proof -
  have d: "Status failedOverMonitor = StatusDown" by (simp add: failedOverMonitor_def)
  have n: "Status ((newMonitor exampleConfig)\<lparr>FailCount := 2\<rparr>) \<noteq> StatusDown"
    "spec_scheduleTarget ((newMonitor exampleConfig)\<lparr>FailCount := 2\<rparr>) = ''192.0.2.2''"
    "CurrentIP ((newMonitor exampleConfig)\<lparr>FailCount := 2\<rparr>) = ''192.0.2.1''"
    by (simp_all add: newMonitor_def exampleConfig_def spec_scheduleTarget_def)
  have "scheduledSwitch boundEngine failedOverMonitor = (failedOverMonitor, [])"
    using scheduledSwitch_fire [of failedOverMonitor boundEngine] d by simp
  moreover have "scheduledSwitch boundEngine ((newMonitor exampleConfig)\<lparr>FailCount := 2\<rparr>)
       = (switchedMonitor, [ScheduledSwitchCalled ''m1'' ''192.0.2.1'' ''192.0.2.2''])"
    using scheduledSwitch_fire [of "(newMonitor exampleConfig)\<lparr>FailCount := 2\<rparr>" boundEngine] n
    by (simp add: switchedMonitor_def newMonitor_def exampleConfig_def boundEngine_def
        NewEngine_def dispatch_def)
  ultimately show ?thesis using d n by simp
qed

section \<open>Registry operations\<close>

text \<open>
  Claim C4. For a monitor registered under \<open>i\<close>, whatever its status, current IP and
  counters, \<open>ForceRestore i\<close> returns the current IP the monitor had before the call
  together with ok = true, and leaves the monitor Normal, at the configured primary IP,
  with failCount and succCount 0.
\<close>

theorem ForceRestore_registered:
  assumes "Monitors e i = Some m"
  shows "fst (snd (ForceRestore e i)) = CurrentIP m \<and> snd (snd (ForceRestore e i))
     \<and> (\<exists>m'. Monitors (fst (ForceRestore e i)) i = Some m'
          \<and> Status m' = StatusNormal \<and> CurrentIP m' = OriginalIP (Config m)
          \<and> FailCount m' = 0 \<and> SuccCount m' = 0 \<and> Config m' = Config m)"
  using assms by (simp add: ForceRestore_def restoreLocked_def)

text \<open>A failed-over monitor, restored: the backup IP is returned.\<close>

theorem ForceRestore_registered_witness:
  "Monitors (registry backupAlertedMonitor) ''m1'' = Some backupAlertedMonitor
   \<and> Status backupAlertedMonitor = StatusDown
   \<and> fst (snd (ForceRestore (registry backupAlertedMonitor) ''m1'')) = ''192.0.2.2''
   \<and> snd (snd (ForceRestore (registry backupAlertedMonitor) ''m1''))
   \<and> (\<exists>m'. Monitors (fst (ForceRestore (registry backupAlertedMonitor) ''m1'')) ''m1'' = Some m'
        \<and> Status m' = StatusNormal \<and> CurrentIP m' = ''192.0.2.1''
        \<and> FailCount m' = 0 \<and> SuccCount m' = 0)"
proof -
  have h: "Monitors (registry backupAlertedMonitor) ''m1'' = Some backupAlertedMonitor"
    by (simp add: registry_def backupAlertedMonitor_eq newMonitor_def quickConfig_def
        exampleConfig_def)
  have c: "CurrentIP backupAlertedMonitor = ''192.0.2.2''"
    "OriginalIP (Config backupAlertedMonitor) = ''192.0.2.1''"
    "Status backupAlertedMonitor = StatusDown"
    by (simp_all add: backupAlertedMonitor_eq newMonitor_def quickConfig_def exampleConfig_def)
  from ForceRestore_registered [OF h] show ?thesis
    unfolding c using h c(3) by blast
qed

text \<open>
  Claim C10. For an id that is not registered, \<open>ForceRestore\<close> returns the empty string
  and ok = false, and the engine, with every monitor it holds, is unchanged.
\<close>

theorem ForceRestore_unregistered:
  "Monitors e i = None \<Longrightarrow> ForceRestore e i = (e, '''', False)"
  by (simp add: ForceRestore_def)

text \<open>An id the registry does not hold.\<close>

theorem ForceRestore_unregistered_witness:
  "Monitors (registry backupAlertedMonitor) ''m2'' = None
   \<and> ForceRestore (registry backupAlertedMonitor) ''m2''
       = (registry backupAlertedMonitor, '''', False)"
proof -
  have h: "Monitors (registry backupAlertedMonitor) ''m2'' = None"
    by (simp add: registry_def backupAlertedMonitor_eq newMonitor_def quickConfig_def
        exampleConfig_def)
  from ForceRestore_unregistered [OF h] h show ?thesis by simp
qed

text \<open>
  Claim C5. For every configuration and every prior state of the engine,
  \<open>StartMonitor cfg\<close> registers under the id of \<open>cfg\<close> a fresh monitor: status Normal,
  currentIP the configured primary IP, failCount, succCount and backupFailCount 0,
  backupDown false. The monitor registered there before is replaced by it, the cancel
  function registered for the id (if any) has been called, a new context is registered
  for the id and a check loop is started on it; the monitors of the other ids stay.
\<close>

theorem StartMonitor_fresh:
  "Monitors (snd (StartMonitor rt e cfg)) (ID cfg) = Some (newMonitor cfg)
   \<and> Config (newMonitor cfg) = cfg
   \<and> Status (newMonitor cfg) = StatusNormal
   \<and> CurrentIP (newMonitor cfg) = OriginalIP cfg
   \<and> FailCount (newMonitor cfg) = 0 \<and> SuccCount (newMonitor cfg) = 0
   \<and> BackupFailCount (newMonitor cfg) = 0 \<and> \<not> BackupDown (newMonitor cfg)
   \<and> (\<forall>c. cancels e (ID cfg) = Some c \<longrightarrow> c \<in> set (cancelled (fst (StartMonitor rt e cfg))))
   \<and> cancels (snd (StartMonitor rt e cfg)) (ID cfg) = Some (nextCtx rt)
   \<and> RunLoop (nextCtx rt) (ID cfg) \<in> set (goroutines (fst (StartMonitor rt e cfg)))
   \<and> (\<forall>i. i \<noteq> ID cfg \<longrightarrow>
         Monitors (snd (StartMonitor rt e cfg)) i = Monitors e i)"
  by (simp add: StartMonitor_def Let_def newMonitor_def split: option.splits)

text \<open>
  Started a second time while the first instance is Down: the first context (0) is
  cancelled and the registered monitor is the fresh one.
\<close>

theorem StartMonitor_fresh_witness:
  "cancels (registry backupAlertedMonitor) (ID quickConfig) = Some 0
   \<and> map_option Status (Monitors (registry backupAlertedMonitor) (ID quickConfig))
       = Some StatusDown
   \<and> Monitors (snd (StartMonitor startedRuntime (registry backupAlertedMonitor) quickConfig))
        (ID quickConfig) = Some (newMonitor quickConfig)
   \<and> 0 \<in> set (cancelled (fst (StartMonitor startedRuntime (registry backupAlertedMonitor)
        quickConfig)))
   \<and> Monitors (snd (StartMonitor startedRuntime (registry backupAlertedMonitor) quickConfig))
        ''m2'' = None"
proof -
  have h: "cancels (registry backupAlertedMonitor) (ID quickConfig) = Some 0"
    "map_option Status (Monitors (registry backupAlertedMonitor) (ID quickConfig))
       = Some StatusDown"
    "''m2'' \<noteq> ID quickConfig"
    "Monitors (registry backupAlertedMonitor) ''m2'' = None"
    by (simp_all add: registry_def backupAlertedMonitor_eq newMonitor_def quickConfig_def
        exampleConfig_def)
  note t = StartMonitor_fresh [of startedRuntime "registry backupAlertedMonitor" quickConfig]
  from t h show ?thesis by (metis (no_types, lifting))
qed

text \<open>
  Claim C9, for a non-empty primary IP. A monitor with no explicit switch-to IP, status
  Normal, a non-empty backup IP different from the primary IP, a non-empty primary IP and
  currentIP equal to the primary IP: one fire of the schedule timer moves currentIP to
  the backup IP and calls the scheduled-switch callback (when bound) with from = primary
  and to = backup; a second fire moves currentIP back to the primary IP, so that two
  fires return currentIP to its starting value, the status being Normal throughout.
\<close>

theorem scheduled_toggle_roundtrip:
  assumes "ScheduleSwitchIP (Config m) = ''''" and "Status m = StatusNormal"
    and "BackupIP (Config m) \<noteq> ''''" and "BackupIP (Config m) \<noteq> OriginalIP (Config m)"
    and "OriginalIP (Config m) \<noteq> ''''" and "CurrentIP m = OriginalIP (Config m)"
  shows "scheduledSwitch e m =
      (m\<lparr>CurrentIP := BackupIP (Config m), FailCount := 0, SuccCount := 0\<rparr>,
       dispatch (OnScheduledSwitch e)
         (ScheduledSwitchCalled (ID (Config m)) (OriginalIP (Config m)) (BackupIP (Config m))))
    \<and> scheduledSwitch e (fst (scheduledSwitch e m)) =
      (m\<lparr>CurrentIP := OriginalIP (Config m), FailCount := 0, SuccCount := 0\<rparr>,
       dispatch (OnScheduledSwitch e)
         (ScheduledSwitchCalled (ID (Config m)) (BackupIP (Config m)) (OriginalIP (Config m))))
    \<and> CurrentIP (fst (scheduledSwitch e (fst (scheduledSwitch e m)))) = CurrentIP m
    \<and> Status (fst (scheduledSwitch e (fst (scheduledSwitch e m)))) = StatusNormal"
proof -
  have first: "scheduledSwitch e m =
      (m\<lparr>CurrentIP := BackupIP (Config m), FailCount := 0, SuccCount := 0\<rparr>,
       dispatch (OnScheduledSwitch e)
         (ScheduledSwitchCalled (ID (Config m)) (OriginalIP (Config m)) (BackupIP (Config m))))"
    using assms by (simp add: scheduledSwitch_def Let_def)
  have second: "scheduledSwitch e (m\<lparr>CurrentIP := BackupIP (Config m), FailCount := 0, SuccCount := 0\<rparr>) =
      (m\<lparr>CurrentIP := OriginalIP (Config m), FailCount := 0, SuccCount := 0\<rparr>,
       dispatch (OnScheduledSwitch e)
         (ScheduledSwitchCalled (ID (Config m)) (BackupIP (Config m)) (OriginalIP (Config m))))"
    using assms by (auto simp add: scheduledSwitch_def Let_def)
  show ?thesis using first second assms by simp
qed

text \<open>The example monitor toggles to the backup IP and back.\<close>

theorem scheduled_toggle_roundtrip_witness:
  "scheduledSwitch boundEngine (newMonitor exampleConfig)
     = (switchedMonitor, [ScheduledSwitchCalled ''m1'' ''192.0.2.1'' ''192.0.2.2''])
   \<and> scheduledSwitch boundEngine switchedMonitor
     = (newMonitor exampleConfig, [ScheduledSwitchCalled ''m1'' ''192.0.2.2'' ''192.0.2.1''])"
proof -
  have h: "ScheduleSwitchIP (Config (newMonitor exampleConfig)) = ''''"
    "Status (newMonitor exampleConfig) = StatusNormal"
    "BackupIP (Config (newMonitor exampleConfig)) \<noteq> ''''"
    "BackupIP (Config (newMonitor exampleConfig)) \<noteq> OriginalIP (Config (newMonitor exampleConfig))"
    "OriginalIP (Config (newMonitor exampleConfig)) \<noteq> ''''"
    "CurrentIP (newMonitor exampleConfig) = OriginalIP (Config (newMonitor exampleConfig))"
    by (simp_all add: newMonitor_def exampleConfig_def)
  note t = scheduled_toggle_roundtrip [OF h, of boundEngine]
  have a: "scheduledSwitch boundEngine (newMonitor exampleConfig)
     = (switchedMonitor, [ScheduledSwitchCalled ''m1'' ''192.0.2.1'' ''192.0.2.2''])"
    using t [THEN conjunct1]
    by (simp add: switchedMonitor_def newMonitor_def exampleConfig_def boundEngine_def
        NewEngine_def dispatch_def)
  have "scheduledSwitch boundEngine (fst (scheduledSwitch boundEngine (newMonitor exampleConfig)))
     = (newMonitor exampleConfig, [ScheduledSwitchCalled ''m1'' ''192.0.2.2'' ''192.0.2.1''])"
    using t [THEN conjunct2, THEN conjunct1]
    by (simp add: newMonitor_def exampleConfig_def boundEngine_def NewEngine_def dispatch_def)
  then show ?thesis using a by simp
qed

text \<open>
  With an empty primary IP the first fire moves currentIP to the backup IP, and the
  second fire computes the empty primary IP as its target and does nothing: currentIP
  does not return to its starting value.
\<close>

theorem scheduled_toggle_empty_primary_counterexample:
  "ScheduleEnabled (Config emptyPrimaryMonitor)
   \<and> 0 < sint (ScheduleHours (Config emptyPrimaryMonitor))
   \<and> ScheduleSwitchIP (Config emptyPrimaryMonitor) = ''''
   \<and> Status emptyPrimaryMonitor = StatusNormal
   \<and> BackupIP (Config emptyPrimaryMonitor) \<noteq> ''''
   \<and> BackupIP (Config emptyPrimaryMonitor) \<noteq> OriginalIP (Config emptyPrimaryMonitor)
   \<and> CurrentIP emptyPrimaryMonitor = OriginalIP (Config emptyPrimaryMonitor)
   \<and> CurrentIP (fst (scheduledSwitch boundEngine emptyPrimaryMonitor)) = ''192.0.2.2''
   \<and> Status (fst (scheduledSwitch boundEngine emptyPrimaryMonitor)) = StatusNormal
   \<and> scheduledSwitch boundEngine (fst (scheduledSwitch boundEngine emptyPrimaryMonitor))
       = (fst (scheduledSwitch boundEngine emptyPrimaryMonitor), [])
   \<and> CurrentIP (fst (scheduledSwitch boundEngine
        (fst (scheduledSwitch boundEngine emptyPrimaryMonitor)))) \<noteq> CurrentIP emptyPrimaryMonitor"
  by (simp add: emptyPrimaryMonitor_def newMonitor_def exampleConfig_def scheduledSwitch_def
      Let_def)

section \<open>The check and its probes\<close>

text \<open>The backup watchdog, case by case.\<close>

lemma checkBackupHealth_cases:
  "checkBackupHealth e net m =
    (if \<not> shouldCheck m \<or> backupPing net m = NewPingerError then (m, [], [])
     else if lossBelow60 (backupPing net m)
     then (m\<lparr>BackupFailCount := 0, BackupDown := False\<rparr>, [], [BackupProbe True])
     else if sint (backupThreshold m) \<le> sint (BackupFailCount m + 1) \<and> \<not> BackupDown m
     then (m\<lparr>BackupDown := True, BackupFailCount := 0\<rparr>,
           dispatch (OnIPDown e)
             (IPDownCalled (ID (Config m)) (BackupIP (Config m)) ''backup''),
           [BackupProbe False])
     else (m\<lparr>BackupFailCount := BackupFailCount m + 1\<rparr>, [], [BackupProbe False]))"
  by (cases "backupPing net m")
    (simp_all add: checkBackupHealth_def shouldCheck_def backupPing_def backupThreshold_def
      Let_def)

lemma checkBackupHealth_calls:
  "\<forall>c \<in> set (snd (snd (checkBackupHealth e net m))). \<exists>h. c = BackupProbe h"
  by (auto simp add: checkBackupHealth_cases)

lemma checkBackupHealth_machine_fields:
  "Status (fst (checkBackupHealth e net m)) = Status m
   \<and> CurrentIP (fst (checkBackupHealth e net m)) = CurrentIP m
   \<and> FailCount (fst (checkBackupHealth e net m)) = FailCount m
   \<and> SuccCount (fst (checkBackupHealth e net m)) = SuccCount m
   \<and> Config (fst (checkBackupHealth e net m)) = Config m"
  by (simp add: checkBackupHealth_cases)

text \<open>A check, component by component.\<close>

lemma check_unfold:
  "check e net m =
    (fst (checkBackupHealth e net
            (fst (handleOutcome e (runProber (selectProber m) net m) m))),
     snd (handleOutcome e (runProber (selectProber m) net m) m)
     @ fst (snd (checkBackupHealth e net
            (fst (handleOutcome e (runProber (selectProber m) net m) m)))),
     PrimaryProbe (selectProber m) (runProber (selectProber m) net m)
     # snd (snd (checkBackupHealth e net
            (fst (handleOutcome e (runProber (selectProber m) net m) m)))))"
  by (simp add: check_def Let_def split: prod.splits)

text \<open>
  What each probe function asks of the network: the tcp probe one connect to the check
  target, the HTTP probe one GET of the check target, the ping probe one ping of the
  check target (the primary IP when none is configured).
\<close>

lemma handleOutcome_config: "Config (fst (handleOutcome e b m)) = Config m"
  by (simp add: handleOutcome_def handleSuccess_def handleFailure_def Let_def)

lemma checkTCP_dials:
  "checkTCP net m = (CheckTarget (Config m) \<noteq> ''''
     \<and> dialTimeout net (CheckTarget (Config m))
          (if sint (TimeoutSeconds (Config m)) \<le> 0 then 2 else TimeoutSeconds (Config m)))"
  by (simp add: checkTCP_def Let_def)

lemma checkHTTP_gets:
  "checkHTTP net m = (CheckTarget (Config m) \<noteq> ''''
     \<and> (\<exists>code. httpGet net (CheckTarget (Config m))
            (if sint (TimeoutSeconds (Config m)) \<le> 0 then 10 else TimeoutSeconds (Config m))
          = Some code \<and> 200 \<le> sint code \<and> sint code < 400))"
  by (simp add: checkHTTP_def Let_def split: option.splits)

lemma checkPing_pings:
  "checkPing net m = lossBelow60 (pingRun net
      (if CheckTarget (Config m) = '''' then OriginalIP (Config m) else CheckTarget (Config m))
      (if sint (PingCount (Config m)) \<le> 0 then 5 else PingCount (Config m))
      (if sint (TimeoutSeconds (Config m)) \<le> 0 then 2 else TimeoutSeconds (Config m)))"
  by (simp add: checkPing_def Let_def split: PingResult.splits)

text \<open>
  A check depends on the network only through the answer to the probe of its check type
  and, for the ping check type, the watchdog's ping of the backup IP.
\<close>

lemma checkBackupHealth_inactive:
  "CheckType (Config m) \<noteq> ''ping'' \<Longrightarrow> checkBackupHealth e net m = (m, [], [])"
  by (simp add: checkBackupHealth_cases shouldCheck_def)

lemma checkBackupHealth_net:
  assumes "backupPing net' m = backupPing net m"
  shows "checkBackupHealth e net' m = checkBackupHealth e net m"
  using assms by (simp add: checkBackupHealth_cases)

lemma backupPing_config:
  "Config m' = Config m \<Longrightarrow> backupPing net m' = backupPing net m"
  by (simp add: backupPing_def)

lemma check_tcp_only:
  assumes "CheckType (Config m) = ''tcping''"
    and "dialTimeout net' (CheckTarget (Config m))
          (if sint (TimeoutSeconds (Config m)) \<le> 0 then 2 else TimeoutSeconds (Config m))
       = dialTimeout net (CheckTarget (Config m))
          (if sint (TimeoutSeconds (Config m)) \<le> 0 then 2 else TimeoutSeconds (Config m))"
  shows "check e net' m = check e net m"
proof -
  have sel: "selectProber m = CheckTCP" using assms(1) by (simp add: selectProber_def)
  have out: "checkTCP net' m = checkTCP net m" using assms(2) by (simp add: checkTCP_dials)
  have "CheckType (Config (fst (handleOutcome e (checkTCP net m) m))) \<noteq> ''ping''"
    using assms(1) by (simp add: handleOutcome_config)
  then have "checkBackupHealth e net' (fst (handleOutcome e (checkTCP net m) m))
      = checkBackupHealth e net (fst (handleOutcome e (checkTCP net m) m))"
    by (simp add: checkBackupHealth_inactive)
  then show ?thesis unfolding check_unfold sel using out by simp
qed

lemma check_http_only:
  assumes "CheckType (Config m) = ''http'' \<or> CheckType (Config m) = ''https''"
    and "httpGet net' (CheckTarget (Config m))
          (if sint (TimeoutSeconds (Config m)) \<le> 0 then 10 else TimeoutSeconds (Config m))
       = httpGet net (CheckTarget (Config m))
          (if sint (TimeoutSeconds (Config m)) \<le> 0 then 10 else TimeoutSeconds (Config m))"
  shows "check e net' m = check e net m"
proof -
  have sel: "selectProber m = CheckHTTP" using assms(1) by (auto simp add: selectProber_def)
  have out: "checkHTTP net' m = checkHTTP net m" using assms(2) by (simp add: checkHTTP_gets)
  have "CheckType (Config (fst (handleOutcome e (checkHTTP net m) m))) \<noteq> ''ping''"
    using assms(1) by (auto simp add: handleOutcome_config)
  then have "checkBackupHealth e net' (fst (handleOutcome e (checkHTTP net m) m))
      = checkBackupHealth e net (fst (handleOutcome e (checkHTTP net m) m))"
    by (simp add: checkBackupHealth_inactive)
  then show ?thesis unfolding check_unfold sel using out by simp
qed

lemma check_ping_only:
  assumes "CheckType (Config m) \<noteq> ''tcping''" and "CheckType (Config m) \<noteq> ''http''"
    and "CheckType (Config m) \<noteq> ''https''"
    and "pingRun net'
          (if CheckTarget (Config m) = '''' then OriginalIP (Config m) else CheckTarget (Config m))
          (if sint (PingCount (Config m)) \<le> 0 then 5 else PingCount (Config m))
          (if sint (TimeoutSeconds (Config m)) \<le> 0 then 2 else TimeoutSeconds (Config m))
       = pingRun net
          (if CheckTarget (Config m) = '''' then OriginalIP (Config m) else CheckTarget (Config m))
          (if sint (PingCount (Config m)) \<le> 0 then 5 else PingCount (Config m))
          (if sint (TimeoutSeconds (Config m)) \<le> 0 then 2 else TimeoutSeconds (Config m))"
    and "backupPing net' m = backupPing net m"
  shows "check e net' m = check e net m"
proof -
  have sel: "selectProber m = CheckPing" using assms(1-3) by (simp add: selectProber_def)
  have out: "checkPing net' m = checkPing net m" using assms(4) by (simp add: checkPing_pings)
  let ?m1 = "fst (handleOutcome e (checkPing net m) m)"
  have "backupPing net' ?m1 = backupPing net ?m1"
    using assms(5) backupPing_config [OF handleOutcome_config, of _ e "checkPing net m" m]
    by simp
  then have "checkBackupHealth e net' ?m1 = checkBackupHealth e net ?m1"
    by (rule checkBackupHealth_net)
  then show ?thesis unfolding check_unfold sel using out by simp
qed

text \<open>
  Claim C7. A check calls exactly one probe function on the primary, the one its check
  type selects (every later probe of the check is the watchdog's ping of the backup IP),
  and the result of that probe is what the state machine is fed with. For the tcp check
  type (the tag \<open>tcping\<close>) it is the tcp-connect probe: it succeeds exactly when a check
  target is configured and the connect to it, with the timeout defaulted to 2 seconds,
  succeeds, and the whole check depends on the network through the answer to that one
  connect only. For \<open>http\<close> and \<open>https\<close> it is the HTTP GET probe: it succeeds exactly when
  a check target is configured and the GET of it, with the timeout defaulted to 10
  seconds, returns a status code from 200 up to 399, and the whole check depends on the
  network through the answer to that one GET only. For every other check type, the unset
  one included, it is the ping probe: it succeeds exactly when the ping of the check
  target (the primary IP when none is configured), with the count defaulted to 5 and the
  timeout to 2 seconds, runs and loses less than 60 percent, and the whole check depends
  on the network through the answer to that ping and to the watchdog's ping of the backup
  IP only.
\<close>

theorem check_probe_dispatch:
  "(\<exists>calls. snd (snd (check e net m))
        = PrimaryProbe (selectProber m) (runProber (selectProber m) net m) # calls
      \<and> (\<forall>c \<in> set calls. \<exists>h. c = BackupProbe h))
   \<and> (CheckType (Config m) = ''tcping''
        \<longrightarrow> selectProber m = CheckTCP \<and> runProber (selectProber m) net m = checkTCP net m
          \<and> checkTCP net m = (CheckTarget (Config m) \<noteq> ''''
               \<and> dialTimeout net (CheckTarget (Config m))
                    (if sint (TimeoutSeconds (Config m)) \<le> 0 then 2
                     else TimeoutSeconds (Config m)))
          \<and> (\<forall>net'. dialTimeout net' (CheckTarget (Config m))
                    (if sint (TimeoutSeconds (Config m)) \<le> 0 then 2
                     else TimeoutSeconds (Config m))
                 = dialTimeout net (CheckTarget (Config m))
                    (if sint (TimeoutSeconds (Config m)) \<le> 0 then 2
                     else TimeoutSeconds (Config m))
               \<longrightarrow> check e net' m = check e net m))
   \<and> (CheckType (Config m) = ''http'' \<or> CheckType (Config m) = ''https''
        \<longrightarrow> selectProber m = CheckHTTP \<and> runProber (selectProber m) net m = checkHTTP net m
          \<and> checkHTTP net m = (CheckTarget (Config m) \<noteq> ''''
               \<and> (\<exists>code. httpGet net (CheckTarget (Config m))
                      (if sint (TimeoutSeconds (Config m)) \<le> 0 then 10
                       else TimeoutSeconds (Config m)) = Some code
                    \<and> 200 \<le> sint code \<and> sint code < 400))
          \<and> (\<forall>net'. httpGet net' (CheckTarget (Config m))
                    (if sint (TimeoutSeconds (Config m)) \<le> 0 then 10
                     else TimeoutSeconds (Config m))
                 = httpGet net (CheckTarget (Config m))
                    (if sint (TimeoutSeconds (Config m)) \<le> 0 then 10
                     else TimeoutSeconds (Config m))
               \<longrightarrow> check e net' m = check e net m))
   \<and> (CheckType (Config m) \<noteq> ''tcping'' \<and> CheckType (Config m) \<noteq> ''http''
        \<and> CheckType (Config m) \<noteq> ''https''
        \<longrightarrow> selectProber m = CheckPing \<and> runProber (selectProber m) net m = checkPing net m
          \<and> checkPing net m = lossBelow60 (pingRun net
               (if CheckTarget (Config m) = '''' then OriginalIP (Config m)
                else CheckTarget (Config m))
               (if sint (PingCount (Config m)) \<le> 0 then 5 else PingCount (Config m))
               (if sint (TimeoutSeconds (Config m)) \<le> 0 then 2
                else TimeoutSeconds (Config m)))
          \<and> (\<forall>net'. pingRun net'
                    (if CheckTarget (Config m) = '''' then OriginalIP (Config m)
                     else CheckTarget (Config m))
                    (if sint (PingCount (Config m)) \<le> 0 then 5 else PingCount (Config m))
                    (if sint (TimeoutSeconds (Config m)) \<le> 0 then 2
                     else TimeoutSeconds (Config m))
                 = pingRun net
                    (if CheckTarget (Config m) = '''' then OriginalIP (Config m)
                     else CheckTarget (Config m))
                    (if sint (PingCount (Config m)) \<le> 0 then 5 else PingCount (Config m))
                    (if sint (TimeoutSeconds (Config m)) \<le> 0 then 2
                     else TimeoutSeconds (Config m))
               \<and> backupPing net' m = backupPing net m
               \<longrightarrow> check e net' m = check e net m))
   \<and> Status (fst (check e net m))
       = Status (fst (handleOutcome e (runProber (selectProber m) net m) m))
   \<and> FailCount (fst (check e net m))
       = FailCount (fst (handleOutcome e (runProber (selectProber m) net m) m))
   \<and> SuccCount (fst (check e net m))
       = SuccCount (fst (handleOutcome e (runProber (selectProber m) net m) m))
   \<and> CurrentIP (fst (check e net m))
       = CurrentIP (fst (handleOutcome e (runProber (selectProber m) net m) m))"
proof -
  have calls: "\<exists>calls. snd (snd (check e net m))
        = PrimaryProbe (selectProber m) (runProber (selectProber m) net m) # calls
      \<and> (\<forall>c \<in> set calls. \<exists>h. c = BackupProbe h)"
    unfolding check_unfold using checkBackupHealth_calls by simp
  have tcp: "CheckType (Config m) = ''tcping''
        \<longrightarrow> selectProber m = CheckTCP \<and> runProber (selectProber m) net m = checkTCP net m"
    and http: "CheckType (Config m) = ''http'' \<or> CheckType (Config m) = ''https''
        \<longrightarrow> selectProber m = CheckHTTP \<and> runProber (selectProber m) net m = checkHTTP net m"
    and ping: "CheckType (Config m) \<noteq> ''tcping'' \<and> CheckType (Config m) \<noteq> ''http''
        \<and> CheckType (Config m) \<noteq> ''https''
        \<longrightarrow> selectProber m = CheckPing \<and> runProber (selectProber m) net m = checkPing net m"
    by (simp_all add: selectProber_def)
  have fields: "Status (fst (check e net m))
       = Status (fst (handleOutcome e (runProber (selectProber m) net m) m))
   \<and> FailCount (fst (check e net m))
       = FailCount (fst (handleOutcome e (runProber (selectProber m) net m) m))
   \<and> SuccCount (fst (check e net m))
       = SuccCount (fst (handleOutcome e (runProber (selectProber m) net m) m))
   \<and> CurrentIP (fst (check e net m))
       = CurrentIP (fst (handleOutcome e (runProber (selectProber m) net m) m))"
    unfolding check_unfold using checkBackupHealth_machine_fields by simp
  show ?thesis
    using calls tcp http ping fields checkTCP_dials [of net m] checkHTTP_gets [of net m]
      checkPing_pings [of net m] check_tcp_only [of m _ net e] check_http_only [of m _ net e]
      check_ping_only [of m _ net e]
    by blast
qed

text \<open>
  A tcp monitor succeeds when the connect succeeds and counts a failure when it does not,
  whatever pings and web servers do; an https monitor succeeds on status 200 and counts
  a failure on status 500; a ping monitor that fails over is probed by ping and then its
  backup is pinged; the unset check type is probed by ping, whatever the web server says.
\<close>

theorem check_probe_dispatch_witness:
  "check boundEngine netUp tcpMonitor = (tcpMonitor, [], [PrimaryProbe CheckTCP True])
   \<and> check boundEngine netDown tcpMonitor
       = (tcpMonitor\<lparr>FailCount := 1\<rparr>, [], [PrimaryProbe CheckTCP False])
   \<and> check boundEngine netTcpOnly tcpMonitor = check boundEngine netUp tcpMonitor
   \<and> check boundEngine netUp httpsMonitor = (httpsMonitor, [], [PrimaryProbe CheckHTTP True])
   \<and> check boundEngine netServerError httpsMonitor
       = (httpsMonitor\<lparr>FailCount := 1\<rparr>, [], [PrimaryProbe CheckHTTP False])
   \<and> snd (snd (check boundEngine netDown (newMonitor quickConfig)))
       = [PrimaryProbe CheckPing False, BackupProbe False]
   \<and> check boundEngine netServerError (newMonitor (exampleConfig\<lparr>CheckType := ''''\<rparr>))
       = (newMonitor (exampleConfig\<lparr>CheckType := ''''\<rparr>), [], [PrimaryProbe CheckPing True])"
proof -
  let ?unset = "newMonitor (exampleConfig\<lparr>CheckType := ''''\<rparr>)"
  have t: "CheckType (Config tcpMonitor) = ''tcping''"
    by (simp add: tcpMonitor_def newMonitor_def exampleConfig_def)
  have h: "CheckType (Config httpsMonitor) = ''http'' \<or> CheckType (Config httpsMonitor) = ''https''"
    by (simp add: httpsMonitor_def newMonitor_def)
  have p: "CheckType (Config (newMonitor quickConfig)) \<noteq> ''tcping''
      \<and> CheckType (Config (newMonitor quickConfig)) \<noteq> ''http''
      \<and> CheckType (Config (newMonitor quickConfig)) \<noteq> ''https''"
    "CheckType (Config ?unset) \<noteq> ''tcping'' \<and> CheckType (Config ?unset) \<noteq> ''http''
      \<and> CheckType (Config ?unset) \<noteq> ''https''"
    by (simp_all add: newMonitor_def quickConfig_def exampleConfig_def)
  note tu = check_probe_dispatch [of boundEngine netUp tcpMonitor,
      THEN conjunct2, THEN conjunct1, rule_format, OF t]
  note td = check_probe_dispatch [of boundEngine netDown tcpMonitor,
      THEN conjunct2, THEN conjunct1, rule_format, OF t]
  note hu = check_probe_dispatch [of boundEngine netUp httpsMonitor,
      THEN conjunct2, THEN conjunct2, THEN conjunct1, rule_format, OF h]
  note he = check_probe_dispatch [of boundEngine netServerError httpsMonitor,
      THEN conjunct2, THEN conjunct2, THEN conjunct1, rule_format, OF h]
  note pd = check_probe_dispatch [of boundEngine netDown "newMonitor quickConfig",
      THEN conjunct2, THEN conjunct2, THEN conjunct2, THEN conjunct1, rule_format, OF p(1)]
  note pu = check_probe_dispatch [of boundEngine netServerError ?unset,
      THEN conjunct2, THEN conjunct2, THEN conjunct2, THEN conjunct1, rule_format, OF p(2)]
  have tcp_up: "checkTCP netUp tcpMonitor" and tcp_down: "\<not> checkTCP netDown tcpMonitor"
    using tu td by (simp_all add: tcpMonitor_def newMonitor_def exampleConfig_def netUp_def
        netDown_def)
  have http_up: "checkHTTP netUp httpsMonitor"
    and http_err: "\<not> checkHTTP netServerError httpsMonitor"
    using hu he by (simp_all add: httpsMonitor_def newMonitor_def exampleConfig_def netUp_def
        netServerError_def)
  have ping_down: "\<not> checkPing netDown (newMonitor quickConfig)"
    and ping_up: "checkPing netServerError ?unset"
    using pd pu by (simp_all add: newMonitor_def quickConfig_def exampleConfig_def netDown_def
        netUp_def netServerError_def)
  have 1: "check boundEngine netUp tcpMonitor = (tcpMonitor, [], [PrimaryProbe CheckTCP True])"
    unfolding check_unfold using tu [THEN conjunct1] tcp_up
    by (simp add: handleOutcome_def handleSuccess_def checkBackupHealth_cases shouldCheck_def
        tcpMonitor_def newMonitor_def exampleConfig_def)
  have 2: "check boundEngine netDown tcpMonitor
       = (tcpMonitor\<lparr>FailCount := 1\<rparr>, [], [PrimaryProbe CheckTCP False])"
    unfolding check_unfold using td [THEN conjunct1] tcp_down
    by (simp add: handleOutcome_def handleFailure_def Let_def checkBackupHealth_cases
        shouldCheck_def tcpMonitor_def newMonitor_def exampleConfig_def)
  have 3: "check boundEngine netTcpOnly tcpMonitor = check boundEngine netUp tcpMonitor"
    by (rule tu [THEN conjunct2, THEN conjunct2, THEN conjunct2, rule_format])
      (simp add: netTcpOnly_def netDown_def netUp_def)
  have 4: "check boundEngine netUp httpsMonitor
       = (httpsMonitor, [], [PrimaryProbe CheckHTTP True])"
    unfolding check_unfold using hu [THEN conjunct1] http_up
    by (simp add: handleOutcome_def handleSuccess_def checkBackupHealth_cases shouldCheck_def
        httpsMonitor_def newMonitor_def exampleConfig_def)
  have 5: "check boundEngine netServerError httpsMonitor
       = (httpsMonitor\<lparr>FailCount := 1\<rparr>, [], [PrimaryProbe CheckHTTP False])"
    unfolding check_unfold using he [THEN conjunct1] http_err
    by (simp add: handleOutcome_def handleFailure_def Let_def checkBackupHealth_cases
        shouldCheck_def httpsMonitor_def newMonitor_def exampleConfig_def)
  have 6: "snd (snd (check boundEngine netDown (newMonitor quickConfig)))
       = [PrimaryProbe CheckPing False, BackupProbe False]"
    unfolding check_unfold using pd [THEN conjunct1] ping_down
    by (simp add: handleOutcome_def handleFailure_def Let_def checkBackupHealth_def
        newMonitor_def quickConfig_def exampleConfig_def netDown_def)
  have 7: "check boundEngine netServerError ?unset = (?unset, [], [PrimaryProbe CheckPing True])"
    unfolding check_unfold using pu [THEN conjunct1] ping_up
    by (simp add: handleOutcome_def handleSuccess_def checkBackupHealth_cases shouldCheck_def
        newMonitor_def exampleConfig_def)
  show ?thesis using 1 2 3 4 5 6 7 by blast
qed

section \<open>The counters and the status\<close>

text \<open>Every operation keeps the invariant.\<close>

lemma handleOutcome_gated:
  assumes "(Status m = StatusNormal \<longrightarrow> SuccCount m = 0) \<and> (Status m = StatusDown \<longrightarrow> FailCount m = 0)"
  shows "(Status (fst (handleOutcome e b m)) = StatusNormal \<longrightarrow> SuccCount (fst (handleOutcome e b m)) = 0)
       \<and> (Status (fst (handleOutcome e b m)) = StatusDown \<longrightarrow> FailCount (fst (handleOutcome e b m)) = 0)"
  using assms
  by (cases "Status m") (simp_all add: handleOutcome_def handleSuccess_def handleFailure_def Let_def)

lemma monStep_gated:
  assumes "(Status m = StatusNormal \<longrightarrow> SuccCount m = 0) \<and> (Status m = StatusDown \<longrightarrow> FailCount m = 0)"
  shows "(Status (fst (monStep e x m)) = StatusNormal \<longrightarrow> SuccCount (fst (monStep e x m)) = 0)
       \<and> (Status (fst (monStep e x m)) = StatusDown \<longrightarrow> FailCount (fst (monStep e x m)) = 0)"
proof (cases x)
  case (Tick net)
  have "Status (fst (check e net m))
       = Status (fst (handleOutcome e (runProber (selectProber m) net m) m))"
    "FailCount (fst (check e net m))
       = FailCount (fst (handleOutcome e (runProber (selectProber m) net m) m))"
    "SuccCount (fst (check e net m))
       = SuccCount (fst (handleOutcome e (runProber (selectProber m) net m) m))"
    unfolding check_unfold using checkBackupHealth_machine_fields by simp_all
  then show ?thesis
    using handleOutcome_gated [OF assms, of e "runProber (selectProber m) net m"] Tick by simp
next
  case ScheduleFire
  then show ?thesis using assms
    by (cases "Status m") (simp_all add: scheduledSwitch_def Let_def)
next
  case Restore
  then show ?thesis by (simp add: restoreLocked_def)
qed

lemma runOps_gated:
  assumes "(Status m = StatusNormal \<longrightarrow> SuccCount m = 0) \<and> (Status m = StatusDown \<longrightarrow> FailCount m = 0)"
  shows "(Status (fst (runOps e ops m)) = StatusNormal \<longrightarrow> SuccCount (fst (runOps e ops m)) = 0)
       \<and> (Status (fst (runOps e ops m)) = StatusDown \<longrightarrow> FailCount (fst (runOps e ops m)) = 0)"
  using assms
proof (induction ops arbitrary: m)
  case Nil
  then show ?case by simp
next
  case (Cons x xs)
  have eq: "fst (runOps e (x # xs) m) = fst (runOps e xs (fst (monStep e x m)))"
    by (simp add: Let_def split: prod.splits)
  show ?case unfolding eq by (rule Cons.IH) (rule monStep_gated [OF Cons.prems])
qed

text \<open>
  Claim C8. In every state reached from a freshly started monitor by any sequence of
  checks (whatever the probes answer), fires of the schedule timer and \<open>ForceRestore\<close>
  calls, succCount is 0 whenever the status is Normal and failCount is 0 whenever the
  status is Down.
\<close>

theorem counters_gated_by_status:
  "(Status (fst (runOps e ops (newMonitor cfg))) = StatusNormal
      \<longrightarrow> SuccCount (fst (runOps e ops (newMonitor cfg))) = 0)
   \<and> (Status (fst (runOps e ops (newMonitor cfg))) = StatusDown
      \<longrightarrow> FailCount (fst (runOps e ops (newMonitor cfg))) = 0)"
  by (rule runOps_gated) (simp add: newMonitor_def)

text \<open>Two runs, one ending Down and one ending Normal.\<close>

theorem counters_gated_by_status_witness:
  "Status (fst (runOps boundEngine [Tick netDown, ScheduleFire] (newMonitor quickConfig)))
     = StatusDown
   \<and> FailCount (fst (runOps boundEngine [Tick netDown, ScheduleFire] (newMonitor quickConfig)))
     = 0
   \<and> Status (fst (runOps boundEngine [Tick netDown, Tick netUp, Restore, Tick netDown]
        (newMonitor exampleConfig))) = StatusNormal
   \<and> SuccCount (fst (runOps boundEngine [Tick netDown, Tick netUp, Restore, Tick netDown]
        (newMonitor exampleConfig))) = 0"
proof -
  have d: "Status (fst (runOps boundEngine [Tick netDown, ScheduleFire] (newMonitor quickConfig)))
     = StatusDown"
    by (simp add: check_def selectProber_def checkPing_def handleOutcome_def
        handleFailure_def checkBackupHealth_def scheduledSwitch_def Let_def newMonitor_def
        quickConfig_def exampleConfig_def netDown_def)
  have n: "Status (fst (runOps boundEngine [Tick netDown, Tick netUp, Restore, Tick netDown]
        (newMonitor exampleConfig))) = StatusNormal"
    by (simp add: check_def selectProber_def checkPing_def handleOutcome_def
        handleFailure_def handleSuccess_def checkBackupHealth_def restoreLocked_def Let_def
        newMonitor_def exampleConfig_def netDown_def netUp_def)
  from counters_gated_by_status [of boundEngine "[Tick netDown, ScheduleFire]" quickConfig] d
  have "FailCount (fst (runOps boundEngine [Tick netDown, ScheduleFire] (newMonitor quickConfig)))
     = 0" by blast
  moreover
  from counters_gated_by_status [of boundEngine "[Tick netDown, Tick netUp, Restore, Tick netDown]"
      exampleConfig] n
  have "SuccCount (fst (runOps boundEngine [Tick netDown, Tick netUp, Restore, Tick netDown]
        (newMonitor exampleConfig))) = 0" by blast
  ultimately show ?thesis using d n by blast
qed

section \<open>The backup watchdog's alert\<close>

text \<open>
  The state machine neither touches backupDown nor fires an event of the backup role. A
  monitor whose backupDown is false has one alert to give, one whose backupDown is true
  has none; no operation but a successful backup probe gives an alert back.
\<close>

lemma handleOutcome_backup:
  "BackupDown (fst (handleOutcome e b m)) = BackupDown m
   \<and> filter isBackupDown (snd (handleOutcome e b m)) = []"
  by (simp add: handleOutcome_def handleSuccess_def handleFailure_def Let_def dispatch_def)

lemma checkBackupHealth_budget:
  assumes "BackupProbe True \<notin> set (snd (snd (checkBackupHealth e net m)))"
  shows "length (filter isBackupDown (fst (snd (checkBackupHealth e net m))))
       + (if BackupDown (fst (checkBackupHealth e net m)) then 0 else 1)
       \<le> (if BackupDown m then 0 else 1)"
  using assms by (auto simp add: checkBackupHealth_cases dispatch_def split: if_splits)

lemma monStep_budget:
  assumes "BackupProbe True \<notin> set (snd (snd (monStep e x m)))"
  shows "length (filter isBackupDown (fst (snd (monStep e x m))))
       + (if BackupDown (fst (monStep e x m)) then 0 else 1)
       \<le> (if BackupDown m then 0 else (1::nat))"
proof (cases x)
  case (Tick net)
  let ?m1 = "fst (handleOutcome e (runProber (selectProber m) net m) m)"
  have "BackupProbe True \<notin> set (snd (snd (check e net m)))"
    using assms Tick by simp
  then have c: "BackupProbe True \<notin> set (snd (snd (checkBackupHealth e net ?m1)))"
    by (simp add: check_unfold)
  have "length (filter isBackupDown (fst (snd (checkBackupHealth e net ?m1))))
       + (if BackupDown (fst (checkBackupHealth e net ?m1)) then 0 else 1)
       \<le> (if BackupDown ?m1 then 0 else 1)"
    by (rule checkBackupHealth_budget [OF c])
  then show ?thesis
    using Tick handleOutcome_backup [of e "runProber (selectProber m) net m" m]
    by (simp add: check_unfold)
next
  case ScheduleFire
  then show ?thesis by (simp add: scheduledSwitch_def Let_def dispatch_def)
next
  case Restore
  then show ?thesis by (simp add: restoreLocked_def)
qed

lemma runOps_unfold:
  "runOps e (x # xs) m =
    (fst (runOps e xs (fst (monStep e x m))),
     fst (snd (monStep e x m)) @ fst (snd (runOps e xs (fst (monStep e x m)))),
     snd (snd (monStep e x m)) @ snd (snd (runOps e xs (fst (monStep e x m)))))"
  by (simp add: Let_def split: prod.splits)

lemma runOps_budget:
  assumes "BackupProbe True \<notin> set (snd (snd (runOps e ops m)))"
  shows "length (filter isBackupDown (fst (snd (runOps e ops m))))
       + (if BackupDown (fst (runOps e ops m)) then 0 else 1)
       \<le> (if BackupDown m then 0 else (1::nat))"
  using assms
proof (induction ops arbitrary: m)
  case Nil
  then show ?case by simp
next
  case (Cons x xs)
  let ?m1 = "fst (monStep e x m)"
  have a: "BackupProbe True \<notin> set (snd (snd (monStep e x m)))"
    and b: "BackupProbe True \<notin> set (snd (snd (runOps e xs ?m1)))"
    using Cons.prems unfolding runOps_unfold by simp_all
  have s1: "length (filter isBackupDown (fst (snd (monStep e x m))))
       + (if BackupDown ?m1 then 0 else 1) \<le> (if BackupDown m then 0 else (1::nat))"
    by (rule monStep_budget [OF a])
  have s2: "length (filter isBackupDown (fst (snd (runOps e xs ?m1))))
       + (if BackupDown (fst (runOps e xs ?m1)) then 0 else 1)
       \<le> (if BackupDown ?m1 then 0 else (1::nat))"
    by (rule Cons.IH [OF b])
  show ?case unfolding runOps_unfold using s1 s2 by (simp split: if_splits)
qed

lemma lossBelow60_ran: "lossBelow60 r \<Longrightarrow> r \<noteq> NewPingerError"
  by (cases r) simp_all

text \<open>
  Claim C6. The watchdog does nothing at all unless the status is Down, the check type is
  \<open>ping\<close> and a backup IP is configured. A successful backup probe resets
  backupFailCount to 0 and backupDown to false and fires nothing. An event is fired only
  by a failed backup probe that brings backupFailCount to the failure threshold (3 when
  the configured one is not positive) while backupDown is false; then backupDown becomes
  true, backupFailCount is reset to 0 and the event is the endpoint-down event of role
  backup, which is what such a probe does when the callback is bound. While backupDown is
  true nothing is fired. Hence, along any sequence of checks, fires of the schedule timer
  and \<open>ForceRestore\<close> calls in which no backup probe succeeds, at most one endpoint-down
  event of role backup is fired, and none if backupDown was already true.
\<close>

theorem backup_watchdog_alert:
  "(Status m \<noteq> StatusDown \<or> CheckType (Config m) \<noteq> ''ping'' \<or> BackupIP (Config m) = ''''
      \<longrightarrow> checkBackupHealth e net m = (m, [], []))
   \<and> (shouldCheck m \<and> lossBelow60 (backupPing net m)
      \<longrightarrow> checkBackupHealth e net m
            = (m\<lparr>BackupFailCount := 0, BackupDown := False\<rparr>, [], [BackupProbe True]))
   \<and> (fst (snd (checkBackupHealth e net m)) \<noteq> []
      \<longrightarrow> shouldCheck m \<and> \<not> lossBelow60 (backupPing net m) \<and> \<not> BackupDown m
          \<and> sint (backupThreshold m) \<le> sint (BackupFailCount m + 1)
          \<and> checkBackupHealth e net m
              = (m\<lparr>BackupDown := True, BackupFailCount := 0\<rparr>,
                 [IPDownCalled (ID (Config m)) (BackupIP (Config m)) ''backup''],
                 [BackupProbe False]))
   \<and> (shouldCheck m \<and> backupPing net m \<noteq> NewPingerError \<and> \<not> lossBelow60 (backupPing net m)
        \<and> \<not> BackupDown m \<and> sint (backupThreshold m) \<le> sint (BackupFailCount m + 1)
      \<longrightarrow> checkBackupHealth e net m
            = (m\<lparr>BackupDown := True, BackupFailCount := 0\<rparr>,
               dispatch (OnIPDown e)
                 (IPDownCalled (ID (Config m)) (BackupIP (Config m)) ''backup''),
               [BackupProbe False]))
   \<and> (BackupDown m \<longrightarrow> fst (snd (checkBackupHealth e net m)) = [])
   \<and> (BackupProbe True \<notin> set (snd (snd (runOps e ops m)))
      \<longrightarrow> length (filter isBackupDown (fst (snd (runOps e ops m)))) \<le> 1
          \<and> (BackupDown m \<longrightarrow> filter isBackupDown (fst (snd (runOps e ops m))) = []))"
proof -
  have inactive: "Status m \<noteq> StatusDown \<or> CheckType (Config m) \<noteq> ''ping''
      \<or> BackupIP (Config m) = '''' \<longrightarrow> checkBackupHealth e net m = (m, [], [])"
    by (auto simp add: checkBackupHealth_cases shouldCheck_def)
  have healthy: "shouldCheck m \<and> lossBelow60 (backupPing net m)
      \<longrightarrow> checkBackupHealth e net m
            = (m\<lparr>BackupFailCount := 0, BackupDown := False\<rparr>, [], [BackupProbe True])"
    using lossBelow60_ran [of "backupPing net m"] by (auto simp add: checkBackupHealth_cases)
  have only: "fst (snd (checkBackupHealth e net m)) \<noteq> []
      \<longrightarrow> shouldCheck m \<and> \<not> lossBelow60 (backupPing net m) \<and> \<not> BackupDown m
          \<and> sint (backupThreshold m) \<le> sint (BackupFailCount m + 1)
          \<and> checkBackupHealth e net m
              = (m\<lparr>BackupDown := True, BackupFailCount := 0\<rparr>,
                 [IPDownCalled (ID (Config m)) (BackupIP (Config m)) ''backup''],
                 [BackupProbe False])"
    by (auto simp add: checkBackupHealth_cases dispatch_def split: if_splits)
  have fires: "shouldCheck m \<and> backupPing net m \<noteq> NewPingerError
        \<and> \<not> lossBelow60 (backupPing net m)
        \<and> \<not> BackupDown m \<and> sint (backupThreshold m) \<le> sint (BackupFailCount m + 1)
      \<longrightarrow> checkBackupHealth e net m
            = (m\<lparr>BackupDown := True, BackupFailCount := 0\<rparr>,
               dispatch (OnIPDown e)
                 (IPDownCalled (ID (Config m)) (BackupIP (Config m)) ''backup''),
               [BackupProbe False])"
    by (simp add: checkBackupHealth_cases)
  have quiet: "BackupDown m \<longrightarrow> fst (snd (checkBackupHealth e net m)) = []"
    by (simp add: checkBackupHealth_cases)
  have trace: "BackupProbe True \<notin> set (snd (snd (runOps e ops m)))
      \<longrightarrow> length (filter isBackupDown (fst (snd (runOps e ops m)))) \<le> 1
          \<and> (BackupDown m \<longrightarrow> filter isBackupDown (fst (snd (runOps e ops m))) = [])"
  proof
    assume "BackupProbe True \<notin> set (snd (snd (runOps e ops m)))"
    from runOps_budget [OF this]
    show "length (filter isBackupDown (fst (snd (runOps e ops m)))) \<le> 1
          \<and> (BackupDown m \<longrightarrow> filter isBackupDown (fst (snd (runOps e ops m))) = [])"
      by (simp split: if_splits)
  qed
  show ?thesis using inactive healthy only fires quiet trace by blast
qed

text \<open>
  A Normal monitor is not watched; a healthy backup clears the flag silently; while the
  flag is set nothing is fired; the third failed backup probe fires the alert; three
  checks on a dead network fire it once.
\<close>

theorem backup_watchdog_alert_witness:
  "Status (newMonitor quickConfig) \<noteq> StatusDown
   \<and> checkBackupHealth boundEngine netDown (newMonitor quickConfig)
       = (newMonitor quickConfig, [], [])
   \<and> shouldCheck backupAlertedMonitor \<and> lossBelow60 (backupPing netUp backupAlertedMonitor)
   \<and> checkBackupHealth boundEngine netUp backupAlertedMonitor
       = (backupAlertedMonitor\<lparr>BackupDown := False\<rparr>, [], [BackupProbe True])
   \<and> BackupDown backupAlertedMonitor
   \<and> fst (snd (checkBackupHealth boundEngine netDown backupAlertedMonitor)) = []
   \<and> sint (backupThreshold nearAlertMonitor) \<le> sint (BackupFailCount nearAlertMonitor + 1)
   \<and> checkBackupHealth boundEngine netDown nearAlertMonitor
       = (failedOverMonitor\<lparr>BackupDown := True\<rparr>,
          [IPDownCalled ''m1'' ''192.0.2.2'' ''backup''], [BackupProbe False])
   \<and> BackupProbe True \<notin> set (snd (snd (runOps boundEngine
         [Tick netDown, Tick netDown, Tick netDown] (newMonitor quickConfig))))
   \<and> length (filter isBackupDown (fst (snd (runOps boundEngine
         [Tick netDown, Tick netDown, Tick netDown] (newMonitor quickConfig))))) \<le> 1"
proof -
  have a: "Status (newMonitor quickConfig) \<noteq> StatusDown" by (simp add: newMonitor_def)
  have b: "shouldCheck backupAlertedMonitor \<and> lossBelow60 (backupPing netUp backupAlertedMonitor)"
    "BackupDown backupAlertedMonitor"
    "backupAlertedMonitor\<lparr>BackupFailCount := 0, BackupDown := False\<rparr>
      = backupAlertedMonitor\<lparr>BackupDown := False\<rparr>"
    by (simp_all add: backupAlertedMonitor_eq shouldCheck_def backupPing_def netUp_def
        newMonitor_def quickConfig_def exampleConfig_def)
  have c: "shouldCheck nearAlertMonitor \<and> backupPing netDown nearAlertMonitor \<noteq> NewPingerError
      \<and> \<not> lossBelow60 (backupPing netDown nearAlertMonitor) \<and> \<not> BackupDown nearAlertMonitor
      \<and> sint (backupThreshold nearAlertMonitor) \<le> sint (BackupFailCount nearAlertMonitor + 1)"
    by (simp add: nearAlertMonitor_def failedOverMonitor_def shouldCheck_def backupPing_def
        backupThreshold_def netDown_def newMonitor_def exampleConfig_def)
  have c': "nearAlertMonitor\<lparr>BackupDown := True, BackupFailCount := 0\<rparr>
      = failedOverMonitor\<lparr>BackupDown := True\<rparr>"
    "dispatch (OnIPDown boundEngine)
       (IPDownCalled (ID (Config nearAlertMonitor)) (BackupIP (Config nearAlertMonitor)) ''backup'')
     = [IPDownCalled ''m1'' ''192.0.2.2'' ''backup'']"
    by (simp_all add: nearAlertMonitor_def failedOverMonitor_def newMonitor_def
        exampleConfig_def boundEngine_def NewEngine_def dispatch_def)
  have d: "BackupProbe True \<notin> set (snd (snd (runOps boundEngine
         [Tick netDown, Tick netDown, Tick netDown] (newMonitor quickConfig))))"
    by (simp add: check_def selectProber_def checkPing_def handleOutcome_def
        handleFailure_def checkBackupHealth_def Let_def newMonitor_def
        quickConfig_def exampleConfig_def netDown_def)
  have 1: "checkBackupHealth boundEngine netDown (newMonitor quickConfig)
       = (newMonitor quickConfig, [], [])"
    using backup_watchdog_alert [of "newMonitor quickConfig" boundEngine netDown "[]"] a by blast
  have 2: "checkBackupHealth boundEngine netUp backupAlertedMonitor
       = (backupAlertedMonitor\<lparr>BackupDown := False\<rparr>, [], [BackupProbe True])"
    using backup_watchdog_alert [of backupAlertedMonitor boundEngine netUp "[]"] b(1)
    unfolding b(3) by blast
  have 3: "fst (snd (checkBackupHealth boundEngine netDown backupAlertedMonitor)) = []"
    using backup_watchdog_alert [of backupAlertedMonitor boundEngine netDown "[]"] b(2) by blast
  have 4: "checkBackupHealth boundEngine netDown nearAlertMonitor
       = (failedOverMonitor\<lparr>BackupDown := True\<rparr>,
          [IPDownCalled ''m1'' ''192.0.2.2'' ''backup''], [BackupProbe False])"
    using backup_watchdog_alert [of nearAlertMonitor boundEngine netDown "[]"] c
    unfolding c' by blast
  have 5: "length (filter isBackupDown (fst (snd (runOps boundEngine
         [Tick netDown, Tick netDown, Tick netDown] (newMonitor quickConfig))))) \<le> 1"
    using backup_watchdog_alert [of "newMonitor quickConfig" boundEngine netDown
        "[Tick netDown, Tick netDown, Tick netDown]"] d by blast
  show ?thesis using a b(1,2) c d 1 2 3 4 5 by blast
qed

end
